theory Spec2Isabelle
  imports Complex_Main "HOL-Library.Word"
begin

text \<open>
  A shallow embedding of the client fa\<^verbatim>\<open>c\<close>ade of the Respoke/brightstream browser library:
  the module functions of \<^verbatim>\<open>brightstream.js\<close> (\<^verbatim>\<open>getClient\<close>, \<^verbatim>\<open>createClient\<close>,
  \<^verbatim>\<open>makeUniqueID\<close>), the constructor and methods of \<^verbatim>\<open>webrtc.Client\<close>
  (\<^verbatim>\<open>webrtc/client.js\<close>) and of its variant \<^verbatim>\<open>webrtc.Mercury\<close>. Closure variables and
  object properties are fields of a record, every method takes the state and returns the new
  one, and a thrown exception is the left injection of a sum.
\<close>

section \<open>JavaScript values read by the fa\<^verbatim>\<open>c\<close>ade\<close>

text \<open>
  The data values that reach the code of \<^verbatim>\<open>webrtc/client.js\<close>, \<^verbatim>\<open>brightstream.js\<close> and the
  Mercury variant: configuration objects, media settings, the \<^verbatim>\<open>usernames\<close> argument of
  \<^verbatim>\<open>logout\<close>, ids, rejection reasons. Numbers are the integers of 54 signed bits (ids,
  widths and heights are such integers in the sources): each of them is a double, and
  \<^verbatim>\<open>toString\<close> prints a double of this size in plain decimal. Objects are lists of own
  data properties in insertion order.
\<close>

type_synonym js_number = "54 word"

datatype jsval =
    JUndefined
  | JNull
  | JBool bool
  | JNum js_number
  | JStr string
  | JArr "jsval list"
  | JObj "(string \<times> jsval) list"

text \<open>Truthiness, as used by \<^verbatim>\<open>||\<close>, \<^verbatim>\<open>!\<close>, \<^verbatim>\<open>!!\<close> and \<^verbatim>\<open>if (...)\<close>.\<close>

fun truthy :: "jsval \<Rightarrow> bool" where
  "truthy JUndefined = False"
| "truthy JNull = False"
| "truthy (JBool b) = b"
| "truthy (JNum n) = (n \<noteq> 0)"
| "truthy (JStr s) = (s \<noteq> [])"
| "truthy (JArr xs) = True"
| "truthy (JObj ps) = True"

text \<open>\<^verbatim>\<open>a || b\<close> on values.\<close>

definition js_or :: "jsval \<Rightarrow> jsval \<Rightarrow> jsval" where
  "js_or a b = (if truthy a then a else b)"

datatype error = TypeError | ReferenceError

text \<open>
  Reading \<^verbatim>\<open>v.constraints\<close>, \<^verbatim>\<open>v.servers\<close> or \<^verbatim>\<open>v.message\<close>: a TypeError on
  \<^verbatim>\<open>undefined\<close> and \<^verbatim>\<open>null\<close>, the own property of an object, and \<^verbatim>\<open>undefined\<close>
  otherwise (none of the three names is a property of a standard prototype).
\<close>

fun own_lookup :: "(string \<times> jsval) list \<Rightarrow> string \<Rightarrow> jsval option" where
  "own_lookup [] k = None"
| "own_lookup ((k', v) # ps) k = (if k' = k then Some v else own_lookup ps k)"

fun get_prop :: "jsval \<Rightarrow> string \<Rightarrow> error + jsval" where
  "get_prop JUndefined k = Inl TypeError"
| "get_prop JNull k = Inl TypeError"
| "get_prop (JObj ps) k = Inr (case own_lookup ps k of None \<Rightarrow> JUndefined | Some v \<Rightarrow> v)"
| "get_prop v k = Inr JUndefined"

section \<open>Collaborators and effects\<close>

text \<open>
  The signaling channel, the identity provider, the User and the UserSession are not part
  of the sources. Every call the fa\<^verbatim>\<open>c\<close>ade makes into them is recorded, in order, in a trace,
  together with the log lines it writes.
\<close>

text \<open>
  Modelled from the spec: the collaborator classes are absent from the sources. A class is
  known by the scope it was found in and its name; calling it with an argument yields a
  collaborator instance.
\<close>

datatype cls = Cls string string

datatype collaborator = Instance cls jsval

datatype event =
    ChannelOpen
  | ChannelClose
  | IdpLogin jsval jsval
  | IdpLogout string string
  | SetOnline nat
  | LogInfo string
  | LogDebugUser nat
  | LogError jsval
  | LogClientId string
  | LogCollaborator cls jsval
  | LogNoClientId
  | LogNoInstance jsval
  | GlobalAssign string jsval
  | Uncaught error

text \<open>
  Modelled from the spec: the User and UserSession classes are absent from the sources. A
  UserSession has \<^verbatim>\<open>userAccount\<close>, \<^verbatim>\<open>token\<close> and the \<^verbatim>\<open>loggedIn\<close> flag; a User has an id
  (\<^verbatim>\<open>getID()\<close>), an online presence and its session (\<^verbatim>\<open>getUserSession()\<close>).
\<close>

record user_session =
  userAccount :: string
  token :: string
  loggedIn :: bool

record user_obj =
  user_id :: string
  online :: bool
  session :: user_session

text \<open>
  Modelled from the spec: the future the identity provider returns from \<^verbatim>\<open>login\<close> is pending,
  fulfilled with a User, or rejected with a reason.
\<close>

datatype promise_state = Pending | Fulfilled nat | Rejected jsval

text \<open>
  The store of User objects and of promises (both by address) and the trace.
  \<^verbatim>\<open>that.user\<close> is a reference into this store, so that a change made through the fa\<^verbatim>\<open>c\<close>ade
  is seen by every holder of the User.
\<close>

record store =
  users :: "nat \<Rightarrow> user_obj"
  promises :: "nat \<Rightarrow> promise_state"
  trace :: "event list"

definition emit :: "event \<Rightarrow> store \<Rightarrow> store" where
  "emit e st = st\<lparr>trace := trace st @ [e]\<rparr>"

section \<open>The Client fa\<^verbatim>\<open>c\<close>ade (webrtc/client.js)\<close>

record media_settings =
  constraints :: jsval
  servers :: jsval

text \<open>
  The closure variables (\<^verbatim>\<open>client\<close>, \<^verbatim>\<open>connected\<close>, \<^verbatim>\<open>mediaSettings\<close>) and the
  properties of \<^verbatim>\<open>that\<close> which the methods read or write.
\<close>

record client_obj =
  client :: string
  connected :: bool
  mediaSettings :: media_settings
  signalingChannel :: collaborator
  identityProvider :: collaborator
  chatMessage :: "cls option"
  signalingMessage :: "cls option"
  presenceMessage :: "cls option"
  mediaSession :: "cls option"
  user :: "nat option"

text \<open>
  Modelled from the spec: the signaling channel's \<^verbatim>\<open>open()\<close> and \<^verbatim>\<open>close()\<close> are absent from
  the sources. By the spec's interface they are side-effect-only operations that return to the
  fa\<^verbatim>\<open>c\<close>ade with no return contract; the value they return (whatever the outcome of the
  transport) is the parameter \<open>r\<close>, which the fa\<^verbatim>\<open>c\<close>ade drops.
\<close>

definition connect :: "jsval \<Rightarrow> client_obj \<times> store \<Rightarrow> client_obj \<times> store" where
  "connect r cs = (case cs of (c, st) \<Rightarrow> (c\<lparr>connected := True\<rparr>, emit ChannelOpen st))"

definition disconnect :: "jsval \<Rightarrow> client_obj \<times> store \<Rightarrow> client_obj \<times> store" where
  "disconnect r cs = (case cs of (c, st) \<Rightarrow> (c\<lparr>connected := False\<rparr>, emit ChannelClose st))"

definition isConnected :: "client_obj \<Rightarrow> bool" where
  "isConnected c = (\<not> \<not> connected c)"

definition getID :: "client_obj \<Rightarrow> string" where
  "getID c = client c"

text \<open>
  \<^verbatim>\<open>login\<close> calls \<^verbatim>\<open>identityProvider.login(userAccount, token)\<close>, attaches the continuation
  \<open>login_continuation\<close> below to the future it got (the parameter \<open>userPromise\<close>, an
  address in the store) and returns that same future.
\<close>

definition login :: "jsval \<Rightarrow> jsval \<Rightarrow> nat \<Rightarrow> client_obj \<times> store \<Rightarrow> nat \<times> (client_obj \<times> store)" where
  "login account tok userPromise cs =
     (case cs of (c, st) \<Rightarrow> (userPromise, (c, emit (IdpLogin account tok) st)))"

text \<open>
  Modelled from the spec: \<^verbatim>\<open>user.setOnline()\<close> belongs to the absent User class; by the spec
  it marks the user online and triggers the presence announcement.
\<close>

definition setOnline :: "nat \<Rightarrow> store \<Rightarrow> store" where
  "setOnline u st = emit (SetOnline u) (st\<lparr>users := (users st)(u := (users st u)\<lparr>online := True\<rparr>)\<rparr>)"

text \<open>The two callbacks handed to \<^verbatim>\<open>userPromise.then\<close>; each returns to Q or throws.\<close>

definition login_fulfilled :: "nat \<Rightarrow> client_obj \<times> store \<Rightarrow> error + (client_obj \<times> store)" where
  "login_fulfilled u cs =
     (case cs of (c, st) \<Rightarrow>
        let st1 = setOnline u st;
            c1 = c\<lparr>user := Some u\<rparr>;
            st2 = emit (LogInfo (''logged in as user '' @ user_id (users st1 u))) st1;
            st3 = emit (LogDebugUser u) st2
        in Inr (c1, st3))"

definition login_rejected :: "jsval \<Rightarrow> client_obj \<times> store \<Rightarrow> error + (client_obj \<times> store)" where
  "login_rejected err cs =
     (case cs of (c, st) \<Rightarrow>
        (case get_prop err ''message'' of
           Inl e \<Rightarrow> Inl e
         | Inr m \<Rightarrow> Inr (c, emit (LogError m) st)))"

text \<open>
  \<^verbatim>\<open>userPromise.then(f, g).done()\<close>, run by Q once \<open>userPromise\<close> is settled: the matching
  callback runs; if it throws, the promise derived by \<^verbatim>\<open>then\<close> is rejected and \<^verbatim>\<open>done\<close>
  rethrows that error, uncaught, in a later turn of the event loop. Nothing runs while the
  promise is pending, and \<open>userPromise\<close> itself is never written.
\<close>

definition login_continuation :: "nat \<Rightarrow> client_obj \<times> store \<Rightarrow> client_obj \<times> store" where
  "login_continuation userPromise cs =
     (case cs of (c, st) \<Rightarrow>
        (case promises st userPromise of
           Pending \<Rightarrow> (c, st)
         | Fulfilled u \<Rightarrow>
             (case login_fulfilled u (c, st) of
                Inl e \<Rightarrow> (c, emit (Uncaught e) st)
              | Inr cs' \<Rightarrow> cs')
         | Rejected err \<Rightarrow>
             (case login_rejected err (c, st) of
                Inl e \<Rightarrow> (c, emit (Uncaught e) st)
              | Inr cs' \<Rightarrow> cs')))"

text \<open>
  Modelled from the spec: the identity provider (absent from the sources) settles the future
  it returned from \<^verbatim>\<open>login\<close>, once, with a User or with a rejection reason.
\<close>

definition settle :: "nat \<Rightarrow> promise_state \<Rightarrow> store \<Rightarrow> store" where
  "settle p outcome st =
     (if promises st p = Pending then st\<lparr>promises := (promises st)(p := outcome)\<rparr> else st)"

subsection \<open>Property names and the \<^verbatim>\<open>in\<close> operator\<close>

definition digit :: "nat \<Rightarrow> char" where
  "digit n = ''0123456789'' ! n"

function string_of_nat :: "nat \<Rightarrow> string" where
  "string_of_nat n = (if n < 10 then [digit n] else string_of_nat (n div 10) @ [digit (n mod 10)])"
  by pat_completeness auto
termination
  by (relation "measure id") auto

declare string_of_nat.simps [simp del]

text \<open>
  \<^verbatim>\<open>Number.prototype.toString\<close> on a number of the model: the signed value in decimal.
\<close>

definition number_toString :: "js_number \<Rightarrow> string" where
  "number_toString n =
     (if sint n < 0 then CHR ''-'' # string_of_nat (nat (- sint n)) else string_of_nat (nat (sint n)))"

text \<open>
  The names every plain object inherits: the properties of \<^verbatim>\<open>Object.prototype\<close> in ES5,
  the five legacy names browsers add to it (\<^verbatim>\<open>__proto__\<close> and the getter and setter
  helpers), and \<^verbatim>\<open>isNumber\<close>, which \<^verbatim>\<open>brightstream.js\<close> defines on
  \<^verbatim>\<open>Object.prototype\<close>.
\<close>

definition object_prototype :: "string list" where
  "object_prototype =
     [''constructor'', ''toString'', ''toLocaleString'', ''valueOf'', ''hasOwnProperty'',
      ''isPrototypeOf'', ''propertyIsEnumerable'', ''__proto__'', ''__defineGetter__'',
      ''__defineSetter__'', ''__lookupGetter__'', ''__lookupSetter__'', ''isNumber'']"

text \<open>
  The names an array inherits from \<^verbatim>\<open>Array.prototype\<close> (besides \<^verbatim>\<open>constructor\<close>,
  \<^verbatim>\<open>toString\<close> and \<^verbatim>\<open>toLocaleString\<close>, listed above): the ES5 methods, then the methods
  later editions added, as the engines of today have them.
\<close>

definition array_prototype :: "string list" where
  "array_prototype =
     [''concat'', ''join'', ''pop'', ''push'', ''reverse'', ''shift'', ''slice'', ''sort'',
      ''splice'', ''unshift'', ''indexOf'', ''lastIndexOf'', ''every'', ''some'', ''forEach'',
      ''map'', ''filter'', ''reduce'', ''reduceRight'',
      ''copyWithin'', ''entries'', ''fill'', ''find'', ''findIndex'', ''keys'', ''values'',
      ''includes'', ''flat'', ''flatMap'', ''at'', ''findLast'', ''findLastIndex'',
      ''toReversed'', ''toSorted'', ''toSpliced'', ''with'']"

text \<open>
  \<^verbatim>\<open>key in v\<close>: whether \<open>key\<close> names a property of \<open>v\<close>, own or inherited. On an array the
  own properties are the indices and \<^verbatim>\<open>length\<close>, not the elements. On a primitive the
  operator throws.
\<close>

definition js_in :: "string \<Rightarrow> jsval \<Rightarrow> error + bool" where
  "js_in k v =
     (case v of
        JObj ps \<Rightarrow> Inr (k \<in> set (map fst ps) \<or> k \<in> set object_prototype)
      | JArr xs \<Rightarrow>
          Inr (k \<in> set (map string_of_nat [0..<length xs]) \<or> k = ''length''
               \<or> k \<in> set array_prototype \<or> k \<in> set object_prototype)
      | _ \<Rightarrow> Inl TypeError)"

subsection \<open>logout, isLoggedIn and the media settings\<close>

text \<open>
  Modelled from the spec: \<^verbatim>\<open>identityProvider.logout(account, token)\<close> is fire-and-forget,
  \<^verbatim>\<open>user.getUserSession()\<close> returns the User's session object, and the session's
  \<^verbatim>\<open>isLoggedIn()\<close> reports its \<^verbatim>\<open>loggedIn\<close> flag. All three are absent from the sources.
\<close>

definition do_logout :: "nat \<Rightarrow> store \<Rightarrow> store" where
  "do_logout u st =
     (let usr = users st u;
          userSession = session usr;
          st1 = emit (IdpLogout (userAccount userSession) (token userSession)) st
      in st1\<lparr>users := (users st1)(u := usr\<lparr>session := userSession\<lparr>loggedIn := False\<rparr>\<rparr>)\<rparr>)"

definition logout :: "jsval \<Rightarrow> client_obj \<times> store \<Rightarrow> error + (client_obj \<times> store)" where
  "logout usernames cs =
     (case cs of (c, st) \<Rightarrow>
        (case user c of
           None \<Rightarrow> Inr (c, st)
         | Some u \<Rightarrow>
             if \<not> truthy usernames then Inr (c, do_logout u st)
             else (case js_in (userAccount (session (users st u))) usernames of
                     Inl e \<Rightarrow> Inl e
                   | Inr b \<Rightarrow> if b then Inr (c, do_logout u st) else Inr (c, st))))"

definition isLoggedIn :: "client_obj \<times> store \<Rightarrow> bool" where
  "isLoggedIn cs =
     (case cs of (c, st) \<Rightarrow>
        (case user c of
           Some u \<Rightarrow> \<not> \<not> loggedIn (session (users st u))
         | None \<Rightarrow> False))"

definition getMediaSettings :: "client_obj \<Rightarrow> media_settings" where
  "getMediaSettings c = mediaSettings c"

definition setDefaultMediaSettings :: "jsval \<Rightarrow> client_obj \<Rightarrow> error + client_obj" where
  "setDefaultMediaSettings settings0 c =
     (let settings = js_or settings0 (JObj []) in
      case get_prop settings ''constraints'' of
        Inl e \<Rightarrow> Inl e
      | Inr x \<Rightarrow>
          let c1 = (if truthy x then c\<lparr>mediaSettings := (mediaSettings c)\<lparr>constraints := x\<rparr>\<rparr> else c) in
          (case get_prop settings ''servers'' of
             Inl e \<Rightarrow> Inl e
           | Inr y \<Rightarrow>
               Inr (if truthy y then c1\<lparr>mediaSettings := (mediaSettings c1)\<lparr>servers := y\<rparr>\<rparr> else c1)))"

definition getSignalingChannel :: "client_obj \<Rightarrow> collaborator" where
  "getSignalingChannel c = signalingChannel c"

section \<open>The process-wide registry and construction\<close>

text \<open>
  \<^verbatim>\<open>brightstream.js\<close> names the library namespace \<^verbatim>\<open>brightstream\<close> and \<^verbatim>\<open>webrtc/client.js\<close>
  names it \<^verbatim>\<open>webrtc\<close>; the model has one namespace, whose \<^verbatim>\<open>instances\<close> object both files
  use. \<open>instances\<close> holds the own properties of that object, \<open>objects\<close> the constructed
  fa\<^verbatim>\<open>c\<close>ades by address, \<open>console\<close> the log lines written outside any fa\<^verbatim>\<open>c\<close>ade method.
\<close>

record world =
  instances :: "string \<rightharpoonup> nat"
  objects :: "nat \<rightharpoonup> client_obj"
  next_ref :: nat
  console :: "event list"

text \<open>The two scopes \<^verbatim>\<open>findClass\<close> searches: which names hold a (truthy) class.\<close>

record namespaces =
  webrtc_ns :: "string \<Rightarrow> bool"
  window_ns :: "string \<Rightarrow> bool"

definition findClass :: "namespaces \<Rightarrow> string \<Rightarrow> cls option" where
  "findClass ns className =
     (if webrtc_ns ns className then Some (Cls ''webrtc'' className)
      else if window_ns ns className then Some (Cls ''window'' className)
      else None)"

text \<open>Calling what \<^verbatim>\<open>findClass\<close> returned: calling \<^verbatim>\<open>undefined\<close> is a TypeError.\<close>

definition call_class :: "cls option \<Rightarrow> jsval \<Rightarrow> error + collaborator" where
  "call_class k arg = (case k of None \<Rightarrow> Inl TypeError | Some cl \<Rightarrow> Inr (Instance cl arg))"

subsection \<open>Double arithmetic and makeUniqueID\<close>

text \<open>
  What \<^verbatim>\<open>Math.random()\<close> returns: a double that is at least 0 and less than 1. Every such
  double is \<open>m / 2 ^ e\<close> with a mantissa \<open>m\<close> of 53 bits and \<open>53 \<le> e \<le> 1074\<close>, and every
  such quotient is one of these doubles; \<open>Draw m s\<close> is the double with \<open>e = 53 + s\<close>
  (\<open>s\<close> capped at 1021).
\<close>

datatype random_draw = Draw "53 word" nat

fun draw_value :: "random_draw \<Rightarrow> real" where
  "draw_value (Draw m s) = real (unat m) / 2 ^ (53 + min s 1021)"

function bit_length :: "nat \<Rightarrow> nat" where
  "bit_length n = (if n = 0 then 0 else Suc (bit_length (n div 2)))"
  by pat_completeness auto
termination
  by (relation "measure id") auto

declare bit_length.simps [simp del]

text \<open>The binary exponent of a positive real: the \<open>k\<close> with \<open>2 ^ k \<le> x < 2 ^ (k + 1)\<close>.\<close>

definition floor_log2 :: "real \<Rightarrow> int" where
  "floor_log2 x =
     (if 1 \<le> x then int (bit_length (nat \<lfloor>x\<rfloor>)) - 1
      else - int (bit_length (nat (\<lceil>1 / x\<rceil> - 1))))"

definition round_half_even :: "real \<Rightarrow> int" where
  "round_half_even y =
     (if y - of_int \<lfloor>y\<rfloor> < 1 / 2 then \<lfloor>y\<rfloor>
      else if 1 / 2 < y - of_int \<lfloor>y\<rfloor> then \<lfloor>y\<rfloor> + 1
      else if even \<lfloor>y\<rfloor> then \<lfloor>y\<rfloor> else \<lfloor>y\<rfloor> + 1)"

definition scale2 :: "real \<Rightarrow> int \<Rightarrow> real" where
  "scale2 x e = (if 0 \<le> e then x * 2 ^ nat e else x / 2 ^ nat (- e))"

text \<open>
  The double a non-negative real below the overflow threshold is rounded to (IEEE 754
  binary64, round to nearest, ties to even): a multiple of \<open>2 ^ e\<close> with a 53-bit
  significand, where \<open>e\<close> is 52 below the binary exponent of \<open>x\<close> and at least -1074.
\<close>

definition to_double :: "real \<Rightarrow> real" where
  "to_double x =
     (if x \<le> 0 then 0
      else scale2 (of_int (round_half_even (scale2 x (- max (floor_log2 x - 52) (- 1074)))))
             (max (floor_log2 x - 52) (- 1074)))"

text \<open>
  \<^verbatim>\<open>Math.floor(Math.random() * 100000000)\<close>. The draw is the parameter; the product of the
  two doubles is their exact product rounded to a double; its floor lies between 0 and
  100000000 and is a number of the model.
\<close>

definition makeUniqueID :: "random_draw \<Rightarrow> js_number" where
  "makeUniqueID rnd = word_of_int \<lfloor>to_double (draw_value rnd * 100000000)\<rfloor>"

definition default_constraints :: jsval where
  "default_constraints =
     JArr [JObj [(''video'', JObj [(''mandatory'', JObj [(''minWidth'', JNum 640), (''minHeight'', JNum 480)])]),
                 (''audio'', JBool True),
                 (''optional'', JArr []),
                 (''mandatory'', JObj [])]]"

definition default_servers :: jsval where
  "default_servers =
     JObj [(''iceServers'',
            JArr [JObj [(''url'', JStr ''turn:toto@174.129.201.5:3478''),
                        (''credential'', JStr ''password'')]])]"

text \<open>
  The constructor \<^verbatim>\<open>webrtc.Client(params)\<close>. Modelled from the spec:
  \<^verbatim>\<open>webrtc.EventThrower(params)\<close> is absent from the sources and returns the new object, here
  the next free address. The object is entered in the registry before the collaborators are
  resolved, so a construction that throws leaves its registry entry behind; only a
  construction that returns has its object in \<open>objects\<close>.
\<close>

definition Client :: "jsval \<Rightarrow> random_draw \<Rightarrow> namespaces \<Rightarrow> world \<Rightarrow> world \<times> (error + nat)" where
  "Client params0 rnd ns w =
     (let params = js_or params0 (JObj []);
          cid = number_toString (makeUniqueID rnd);
          that = next_ref w;
          w1 = w\<lparr>instances := (instances w)(cid \<mapsto> that), next_ref := Suc that,
                 console := console w @ [LogClientId cid]\<rparr>
      in case get_prop params ''constraints'' of
           Inl e \<Rightarrow> (w1, Inl e)
         | Inr pc \<Rightarrow>
        (case get_prop params ''servers'' of
           Inl e \<Rightarrow> (w1, Inl e)
         | Inr ps \<Rightarrow>
        (case call_class (findClass ns ''XMPPSignalingChannel'') (JObj [(''client'', JStr cid)]) of
           Inl e \<Rightarrow> (w1, Inl e)
         | Inr sc \<Rightarrow>
        (case call_class (findClass ns ''XMPPIdentityProvider'') (JObj [(''client'', JStr cid)]) of
           Inl e \<Rightarrow> (w1, Inl e)
         | Inr idp \<Rightarrow>
             let c = \<lparr>client = cid, connected = False,
                      mediaSettings = \<lparr>constraints = js_or pc default_constraints,
                                       servers = js_or ps default_servers\<rparr>,
                      signalingChannel = sc, identityProvider = idp,
                      chatMessage = findClass ns ''XMPPChatMessage'',
                      signalingMessage = findClass ns ''XMPPSignalingMessage'',
                      presenceMessage = findClass ns ''XMPPPresenceMessage'',
                      mediaSession = findClass ns ''undefined'',
                      user = None\<rparr>
             in (w1\<lparr>objects := (objects w1)(that \<mapsto> c),
                     console := console w1 @ [case sc of Instance cl arg \<Rightarrow> LogCollaborator cl arg]\<rparr>,
                 Inr that)))))"

definition createClient :: "jsval \<Rightarrow> random_draw \<Rightarrow> namespaces \<Rightarrow> world \<Rightarrow> world \<times> (error + nat)" where
  "createClient params rnd ns w = Client params rnd ns w"

text \<open>
  \<^verbatim>\<open>brightstream.connect(params)\<close>: construct, then call \<^verbatim>\<open>connect\<close> on the new fa\<^verbatim>\<open>c\<close>ade
  (\<open>r\<close> is what the signaling channel's \<^verbatim>\<open>open()\<close> returned).
\<close>

definition brightstream_connect ::
  "jsval \<Rightarrow> random_draw \<Rightarrow> namespaces \<Rightarrow> jsval \<Rightarrow> world \<times> store \<Rightarrow> (world \<times> store) \<times> (error + nat)" where
  "brightstream_connect params rnd ns r ws =
     (case ws of (w, st) \<Rightarrow>
        (case Client params rnd ns w of
           (w1, Inl e) \<Rightarrow> ((w1, st), Inl e)
         | (w1, Inr a) \<Rightarrow>
             (case objects w1 a of
                None \<Rightarrow> ((w1, st), Inl TypeError)
              | Some c \<Rightarrow>
                  (case connect r (c, st) of
                     (c', st') \<Rightarrow> ((w1\<lparr>objects := (objects w1)(a \<mapsto> c')\<rparr>, st'), Inr a)))))"

subsection \<open>getClient\<close>

text \<open>
  \<^verbatim>\<open>Array.prototype.join\<close> over the strings of the elements, converted left to right: the
  first conversion that throws ends it.
\<close>

fun join_comma :: "(error + string) list \<Rightarrow> error + string" where
  "join_comma [] = Inr []"
| "join_comma [r] = r"
| "join_comma (r # t # rs) =
     (case r of
        Inl e \<Rightarrow> Inl e
      | Inr s \<Rightarrow> (case join_comma (t # rs) of Inl e \<Rightarrow> Inl e | Inr ss \<Rightarrow> Inr (s @ CHR '','' # ss)))"

text \<open>
  The property key a value is converted to in \<^verbatim>\<open>instances[id]\<close>. An array is joined. A
  plain object without an own \<^verbatim>\<open>toString\<close> inherits the one of \<^verbatim>\<open>Object.prototype\<close>; an
  own \<^verbatim>\<open>toString\<close> is a data value of the model and not callable, \<^verbatim>\<open>valueOf\<close> (own and not
  callable, or inherited and returning the object) yields no primitive either, and the
  conversion throws a TypeError.
\<close>

fun to_key :: "jsval \<Rightarrow> error + string" where
  "to_key JUndefined = Inr ''undefined''"
| "to_key JNull = Inr ''null''"
| "to_key (JBool b) = Inr (if b then ''true'' else ''false'')"
| "to_key (JNum n) = Inr (number_toString n)"
| "to_key (JStr s) = Inr s"
| "to_key (JArr xs) =
     join_comma (map (\<lambda>x. if x = JUndefined \<or> x = JNull then Inr [] else to_key x) xs)"
| "to_key (JObj ps) =
     (if ''toString'' \<in> set (map fst ps) then Inl TypeError else Inr ''[object Object]'')"

text \<open>
  What \<^verbatim>\<open>brightstream.instances[key]\<close> evaluates to: the registered fa\<^verbatim>\<open>c\<close>ade, a value
  inherited from \<^verbatim>\<open>Object.prototype\<close> (\<^verbatim>\<open>instances\<close> is a plain \<^verbatim>\<open>{}\<close>), or
  \<^verbatim>\<open>undefined\<close> (\<open>None\<close>).
\<close>

datatype slot = Facade nat | Inherited string

definition instances_get :: "world \<Rightarrow> string \<Rightarrow> slot option" where
  "instances_get w k =
     (case instances w k of
        Some a \<Rightarrow> Some (Facade a)
      | None \<Rightarrow> if k \<in> set object_prototype then Some (Inherited k) else None)"

text \<open>
  \<^verbatim>\<open>brightstream.getClient(id)\<close>. The comparison with \<^verbatim>\<open>undefined\<close> and its log line come
  first; \<^verbatim>\<open>brightstream.instances[id]\<close> then converts \<open>id\<close> to a property key, which can
  throw.
\<close>

definition getClient :: "jsval \<Rightarrow> world \<Rightarrow> world \<times> (error + slot option)" where
  "getClient ident w =
     (let w1 = (if ident = JUndefined then w\<lparr>console := console w @ [LogNoClientId]\<rparr> else w)
      in case to_key ident of
           Inl e \<Rightarrow> (w1, Inl e)
         | Inr k \<Rightarrow>
             let w2 = (if instances_get w1 k = None
                       then w1\<lparr>console := console w1 @ [LogNoInstance ident]\<rparr> else w1)
             in (w2, Inr (instances_get w2 k)))"

section \<open>The Mercury variant (src/unnamed/part_000)\<close>

text \<open>
  \<open>m_mediaSettings\<close> is the constructor-local variable \<^verbatim>\<open>mediaSettings\<close>;
  \<open>that_mediaSettings\<close> is the property \<^verbatim>\<open>that.mediaSettings\<close> of the object: \<open>None\<close> when
  the object has no such property (\<^verbatim>\<open>undefined\<close>), the own properties of the object it holds
  otherwise. \<open>m_userSessions\<close> is the array \<^verbatim>\<open>userSessions\<close>.
\<close>

record mercury_obj =
  m_connected :: bool
  m_userSessions :: "user_session list"
  m_mediaSettings :: media_settings
  that_mediaSettings :: "(string \<times> jsval) list option"
  m_signalingChannel :: collaborator
  m_identityProvider :: collaborator
  m_chatMessage :: "cls option"
  m_signalingMessage :: "cls option"
  m_presenceMessage :: "cls option"
  m_mediaSession :: "cls option"
  m_user :: "nat option"

definition Mercury_default_constraints :: jsval where
  "Mercury_default_constraints =
     JObj [(''video'', JBool True), (''audio'', JBool True),
           (''optional'', JArr []), (''mandatory'', JObj [])]"

text \<open>
  The constructor \<^verbatim>\<open>webrtc.Mercury(params)\<close>. \<^verbatim>\<open>webrtc.EventThrower(params)\<close> is absent
  from the sources; what its result carries under the name \<^verbatim>\<open>mediaSettings\<close> is the
  parameter \<open>base_mediaSettings\<close>. The constructor never reads \<open>params\<close> for the media
  settings and never assigns \<^verbatim>\<open>that.mediaSettings\<close>.
\<close>

definition Mercury :: "jsval \<Rightarrow> (string \<times> jsval) list option \<Rightarrow> namespaces \<Rightarrow> error + mercury_obj" where
  "Mercury params0 base_mediaSettings ns =
     (case call_class (findClass ns ''XMPPSignalingChannel'') JUndefined of
        Inl e \<Rightarrow> Inl e
      | Inr sc \<Rightarrow>
     (case call_class (findClass ns ''XMPPIdentityProvider'') JUndefined of
        Inl e \<Rightarrow> Inl e
      | Inr idp \<Rightarrow>
          Inr \<lparr>m_connected = False, m_userSessions = [],
               m_mediaSettings = \<lparr>constraints = Mercury_default_constraints,
                                  servers = default_servers\<rparr>,
               that_mediaSettings = base_mediaSettings,
               m_signalingChannel = sc, m_identityProvider = idp,
               m_chatMessage = findClass ns ''XMPPChatMessage'',
               m_signalingMessage = findClass ns ''XMPPSignalingMessage'',
               m_presenceMessage = findClass ns ''XMPPPresenceMessage'',
               m_mediaSession = findClass ns ''undefined'',
               m_user = None\<rparr>))"

definition Mercury_connect :: "jsval \<Rightarrow> mercury_obj \<times> store \<Rightarrow> mercury_obj \<times> store" where
  "Mercury_connect r ms = (case ms of (m, st) \<Rightarrow> (m\<lparr>m_connected := True\<rparr>, emit ChannelOpen st))"

definition Mercury_disconnect :: "jsval \<Rightarrow> mercury_obj \<times> store \<Rightarrow> mercury_obj \<times> store" where
  "Mercury_disconnect r ms = (case ms of (m, st) \<Rightarrow> (m\<lparr>m_connected := False\<rparr>, emit ChannelClose st))"

definition Mercury_isConnected :: "mercury_obj \<Rightarrow> bool" where
  "Mercury_isConnected m = (\<not> \<not> m_connected m)"

definition Mercury_login :: "jsval \<Rightarrow> jsval \<Rightarrow> nat \<Rightarrow> mercury_obj \<times> store \<Rightarrow> nat \<times> (mercury_obj \<times> store)" where
  "Mercury_login account tok userPromise ms =
     (case ms of (m, st) \<Rightarrow> (userPromise, (m, emit (IdpLogin account tok) st)))"

definition Mercury_login_fulfilled :: "nat \<Rightarrow> mercury_obj \<times> store \<Rightarrow> error + (mercury_obj \<times> store)" where
  "Mercury_login_fulfilled u ms =
     (case ms of (m, st) \<Rightarrow>
        let st1 = setOnline u st;
            m1 = m\<lparr>m_user := Some u\<rparr>;
            st2 = emit (LogInfo ''logged in as user'') st1;
            st3 = emit (LogDebugUser u) st2
        in Inr (m1, st3))"

definition Mercury_login_rejected :: "jsval \<Rightarrow> mercury_obj \<times> store \<Rightarrow> error + (mercury_obj \<times> store)" where
  "Mercury_login_rejected err ms =
     (case ms of (m, st) \<Rightarrow>
        (case get_prop err ''message'' of
           Inl e \<Rightarrow> Inl e
         | Inr msg \<Rightarrow> Inr (m, emit (LogError msg) st)))"

definition Mercury_login_continuation :: "nat \<Rightarrow> mercury_obj \<times> store \<Rightarrow> mercury_obj \<times> store" where
  "Mercury_login_continuation userPromise ms =
     (case ms of (m, st) \<Rightarrow>
        (case promises st userPromise of
           Pending \<Rightarrow> (m, st)
         | Fulfilled u \<Rightarrow>
             (case Mercury_login_fulfilled u (m, st) of
                Inl e \<Rightarrow> (m, emit (Uncaught e) st)
              | Inr ms' \<Rightarrow> ms')
         | Rejected err \<Rightarrow>
             (case Mercury_login_rejected err (m, st) of
                Inl e \<Rightarrow> (m, emit (Uncaught e) st)
              | Inr ms' \<Rightarrow> ms')))"

text \<open>
  The test of the first \<^verbatim>\<open>forEach\<close> callback of \<^verbatim>\<open>logout\<close>,
  \<^verbatim>\<open>!username || session.userAccount in usernames\<close>. The callback reads \<^verbatim>\<open>username\<close>, which
  is neither a parameter nor a local variable: \<open>username_global\<close> is the global of that name
  when there is one, and reading it is a ReferenceError when there is none.
\<close>

definition session_selected :: "jsval option \<Rightarrow> jsval \<Rightarrow> user_session \<Rightarrow> error + bool" where
  "session_selected username_global usernames s =
     (case username_global of
        None \<Rightarrow> Inl ReferenceError
      | Some username \<Rightarrow>
          if \<not> truthy username then Inr True else js_in (userAccount s) usernames)"

text \<open>
  The first \<^verbatim>\<open>forEach\<close>: the sessions as left by the loop, \<^verbatim>\<open>removedIndexes\<close>, the store,
  and the error that ended the loop early, if any.
\<close>

fun logout_each ::
  "jsval option \<Rightarrow> jsval \<Rightarrow> nat \<Rightarrow> user_session list \<Rightarrow> store
     \<Rightarrow> (user_session list \<times> nat list \<times> store) \<times> error option" where
  "logout_each ug usernames i [] st = (([], [], st), None)"
| "logout_each ug usernames i (s # ss) st =
     (case session_selected ug usernames s of
        Inl e \<Rightarrow> ((s # ss, [], st), Some e)
      | Inr b \<Rightarrow>
          if b then
            (case logout_each ug usernames (Suc i) ss (emit (IdpLogout (userAccount s) (token s)) st) of
               ((ss', idxs, st'), err) \<Rightarrow> ((s\<lparr>loggedIn := False\<rparr> # ss', i # idxs, st'), err))
          else
            (case logout_each ug usernames (Suc i) ss st of
               ((ss', idxs, st'), err) \<Rightarrow> ((s # ss', idxs, st'), err)))"

text \<open>
  Modelled from the spec: \<^verbatim>\<open>userSessions.remove(index)\<close> is not a method of ES5 arrays and
  is not defined in the sources; \<open>remove_defined\<close> says whether the page defines it, and by
  the spec it removes the session at that index. Without it the call is a TypeError.
\<close>

definition remove_at :: "nat \<Rightarrow> 'a list \<Rightarrow> 'a list" where
  "remove_at i xs = take i xs @ drop (Suc i) xs"

definition Mercury_logout ::
  "jsval \<Rightarrow> jsval option \<Rightarrow> bool \<Rightarrow> mercury_obj \<times> store \<Rightarrow> (mercury_obj \<times> store) \<times> error option" where
  "Mercury_logout usernames username_global remove_defined ms =
     (case ms of (m, st) \<Rightarrow>
        (case logout_each username_global usernames 0 (m_userSessions m)
                (emit (GlobalAssign ''blahblah'' (JNum 1)) st) of
           ((ss, removedIndexes, st1), Some e) \<Rightarrow> ((m\<lparr>m_userSessions := ss\<rparr>, st1), Some e)
         | ((ss, removedIndexes, st1), None) \<Rightarrow>
             if removedIndexes \<noteq> [] \<and> \<not> remove_defined
             then ((m\<lparr>m_userSessions := ss\<rparr>, st1), Some TypeError)
             else
               let ss1 = fold remove_at (rev removedIndexes) ss;
                   m1 = m\<lparr>m_userSessions := ss1\<rparr>
               in ((if length ss1 = 0 then m1\<lparr>m_user := None\<rparr> else m1, st1), None)))"

definition Mercury_isLoggedIn :: "mercury_obj \<Rightarrow> bool" where
  "Mercury_isLoggedIn m = (\<not> \<not> fold (\<lambda>s acc. acc \<or> loggedIn s) (m_userSessions m) False)"

definition Mercury_getUserSessions :: "mercury_obj \<Rightarrow> user_session list" where
  "Mercury_getUserSessions m = m_userSessions m"

definition Mercury_getDefaultMediaSettings :: "mercury_obj \<Rightarrow> jsval" where
  "Mercury_getDefaultMediaSettings m =
     (case that_mediaSettings m of None \<Rightarrow> JUndefined | Some ps \<Rightarrow> JObj ps)"

text \<open>\<^verbatim>\<open>o[k] = v\<close> on the own properties of an object.\<close>

fun own_update :: "string \<Rightarrow> jsval \<Rightarrow> (string \<times> jsval) list \<Rightarrow> (string \<times> jsval) list" where
  "own_update k v [] = [(k, v)]"
| "own_update k v ((k', v') # ps) = (if k' = k then (k, v) # ps else (k', v') # own_update k v ps)"

text \<open>
  \<^verbatim>\<open>that.mediaSettings.name = v\<close>: a TypeError when \<^verbatim>\<open>that.mediaSettings\<close> is
  \<^verbatim>\<open>undefined\<close>.
\<close>

definition assign_that_mediaSettings :: "string \<Rightarrow> jsval \<Rightarrow> mercury_obj \<Rightarrow> error + mercury_obj" where
  "assign_that_mediaSettings name v m =
     (case that_mediaSettings m of
        None \<Rightarrow> Inl TypeError
      | Some ps \<Rightarrow> Inr (m\<lparr>that_mediaSettings := Some (own_update name v ps)\<rparr>))"

definition Mercury_setDefaultMediaSettings :: "jsval \<Rightarrow> mercury_obj \<Rightarrow> error + mercury_obj" where
  "Mercury_setDefaultMediaSettings settings0 m =
     (let settings = js_or settings0 (JObj []) in
      case get_prop settings ''constraints'' of
        Inl e \<Rightarrow> Inl e
      | Inr x \<Rightarrow>
     (case (if truthy x then assign_that_mediaSettings ''constraints'' x m else Inr m) of
        Inl e \<Rightarrow> Inl e
      | Inr m1 \<Rightarrow>
     (case get_prop settings ''servers'' of
        Inl e \<Rightarrow> Inl e
      | Inr y \<Rightarrow> if truthy y then assign_that_mediaSettings ''servers'' y m1 else Inr m1)))"

definition Mercury_getSignalingChannel :: "mercury_obj \<Rightarrow> collaborator" where
  "Mercury_getSignalingChannel m = m_signalingChannel m"

section \<open>Sequences of connect and disconnect calls\<close>

text \<open>
  An interleaving of \<^verbatim>\<open>connect()\<close> and \<^verbatim>\<open>disconnect()\<close> calls on one fa\<^verbatim>\<open>c\<close>ade, each with
  the value the signaling channel returned to it.
\<close>

datatype conn_call = CallConnect jsval | CallDisconnect jsval

fun is_connect :: "conn_call \<Rightarrow> bool" where
  "is_connect (CallConnect r) = True"
| "is_connect (CallDisconnect r) = False"

fun run_calls :: "conn_call list \<Rightarrow> client_obj \<times> store \<Rightarrow> client_obj \<times> store" where
  "run_calls [] cs = cs"
| "run_calls (CallConnect r # calls) cs = run_calls calls (connect r cs)"
| "run_calls (CallDisconnect r # calls) cs = run_calls calls (disconnect r cs)"

fun Mercury_run_calls :: "conn_call list \<Rightarrow> mercury_obj \<times> store \<Rightarrow> mercury_obj \<times> store" where
  "Mercury_run_calls [] ms = ms"
| "Mercury_run_calls (CallConnect r # calls) ms = Mercury_run_calls calls (Mercury_connect r ms)"
| "Mercury_run_calls (CallDisconnect r # calls) ms = Mercury_run_calls calls (Mercury_disconnect r ms)"

text \<open>The flag an interleaving must leave: that of its last call, or the old one if it is empty.\<close>

definition expected_flag :: "conn_call list \<Rightarrow> bool \<Rightarrow> bool" where
  "expected_flag calls before = (if calls = [] then before else is_connect (last calls))"

text \<open>
  Sample values: an empty registry, scopes that hold the five default classes, a logged-in
  User and a store in which every address holds that User and every future is pending.
\<close>

definition empty_world :: world where
  "empty_world = \<lparr>instances = Map.empty, objects = Map.empty, next_ref = 0, console = []\<rparr>"

definition default_namespaces :: namespaces where
  "default_namespaces =
     \<lparr>webrtc_ns = (\<lambda>n. n \<in> set [''XMPPSignalingChannel'', ''XMPPIdentityProvider'',
                                    ''XMPPChatMessage'', ''XMPPSignalingMessage'',
                                    ''XMPPPresenceMessage'']),
      window_ns = (\<lambda>n. False)\<rparr>"

definition alice :: user_obj where
  "alice = \<lparr>user_id = ''alice'', online = False,
            session = \<lparr>userAccount = ''alice'', token = ''secret'', loggedIn = True\<rparr>\<rparr>"

definition empty_store :: store where
  "empty_store = \<lparr>users = (\<lambda>a. alice), promises = (\<lambda>p. Pending), trace = []\<rparr>"

text \<open>
  Sample draws: the doubles 0, 0.25, 0.25 + 2^-30, 0.5, and the double nearest to 0.7.
\<close>

definition draw_zero :: random_draw where
  "draw_zero = Draw 0 0"

definition draw_quarter :: random_draw where
  "draw_quarter = Draw 2251799813685248 0"

definition draw_quarter_plus :: random_draw where
  "draw_quarter_plus = Draw 2251799822073856 0"

definition draw_half :: random_draw where
  "draw_half = Draw 4503599627370496 0"

definition draw_seven_tenths :: random_draw where
  "draw_seven_tenths = Draw 6305039478318694 0"

text \<open>
  A sequence of constructions in one process, each with its configuration, its draw and the
  scopes it finds its classes in. The \<open>j\<close>-th of them allocates the address
  \<open>next_ref w + j\<close>. \<open>last_draw k cs\<close> is the position of the last construction of \<open>cs\<close>
  whose id is \<open>k\<close>.
\<close>

type_synonym construction = "jsval \<times> random_draw \<times> namespaces"

fun construct_all :: "construction list \<Rightarrow> world \<Rightarrow> world" where
  "construct_all [] w = w"
| "construct_all ((params, rnd, ns) # cs) w = construct_all cs (fst (Client params rnd ns w))"

fun draws_id :: "string \<Rightarrow> construction \<Rightarrow> bool" where
  "draws_id k (params, rnd, ns) = (number_toString (makeUniqueID rnd) = k)"

fun last_draw :: "string \<Rightarrow> construction list \<Rightarrow> nat option" where
  "last_draw k [] = None"
| "last_draw k (c # cs) =
     (case last_draw k cs of
        Some j \<Rightarrow> Some (Suc j)
      | None \<Rightarrow> if draws_id k c then Some 0 else None)"

text \<open>The scenario of two fa\<^verbatim>\<open>c\<close>ades constructed in sequence in one process.\<close>

definition construct_two ::
  "jsval \<Rightarrow> random_draw \<Rightarrow> jsval \<Rightarrow> random_draw \<Rightarrow> namespaces \<Rightarrow> world \<Rightarrow> world \<times> (error + nat) \<times> (error + nat)" where
  "construct_two p1 r1 p2 r2 ns w =
     (case Client p1 r1 ns w of (w1, a1) \<Rightarrow>
        (case Client p2 r2 ns w1 of (w2, a2) \<Rightarrow> (w2, a1, a2)))"

text \<open>
  The scenario of a login whose future was pending when \<^verbatim>\<open>login\<close> returned it: the
  fa\<^verbatim>\<open>c\<close>ade's call, then the identity provider settling the future, then Q running the
  continuation the fa\<^verbatim>\<open>c\<close>ade attached. The first component is what \<^verbatim>\<open>login\<close> returned.
\<close>

definition login_settled ::
  "jsval \<Rightarrow> jsval \<Rightarrow> nat \<Rightarrow> promise_state \<Rightarrow> client_obj \<times> store \<Rightarrow> nat \<times> (client_obj \<times> store)" where
  "login_settled account tok p outcome cs =
     (case login account tok p cs of
        (q, (c1, st1)) \<Rightarrow> (q, login_continuation p (c1, settle p outcome st1)))"

definition Mercury_login_settled ::
  "jsval \<Rightarrow> jsval \<Rightarrow> nat \<Rightarrow> promise_state \<Rightarrow> mercury_obj \<times> store \<Rightarrow> nat \<times> (mercury_obj \<times> store)" where
  "Mercury_login_settled account tok p outcome ms =
     (case Mercury_login account tok p ms of
        (q, (m1, st1)) \<Rightarrow> (q, Mercury_login_continuation p (m1, settle p outcome st1)))"

text \<open>
  Sample values: the Client and the Mercury object a configuration-less construction returns with
  the default classes in scope (the Client with the draw 0.25), and a User whose account is the
  string \<^verbatim>\<open>'0'\<close>.
\<close>

definition client0 :: client_obj where
  "client0 =
     \<lparr>client = ''25000000'', connected = False,
      mediaSettings = \<lparr>constraints = default_constraints, servers = default_servers\<rparr>,
      signalingChannel = Instance (Cls ''webrtc'' ''XMPPSignalingChannel'')
                                  (JObj [(''client'', JStr ''25000000'')]),
      identityProvider = Instance (Cls ''webrtc'' ''XMPPIdentityProvider'')
                                  (JObj [(''client'', JStr ''25000000'')]),
      chatMessage = Some (Cls ''webrtc'' ''XMPPChatMessage''),
      signalingMessage = Some (Cls ''webrtc'' ''XMPPSignalingMessage''),
      presenceMessage = Some (Cls ''webrtc'' ''XMPPPresenceMessage''),
      mediaSession = None,
      user = None\<rparr>"

definition mercury0 :: mercury_obj where
  "mercury0 =
     \<lparr>m_connected = False, m_userSessions = [],
      m_mediaSettings = \<lparr>constraints = Mercury_default_constraints, servers = default_servers\<rparr>,
      that_mediaSettings = None,
      m_signalingChannel = Instance (Cls ''webrtc'' ''XMPPSignalingChannel'') JUndefined,
      m_identityProvider = Instance (Cls ''webrtc'' ''XMPPIdentityProvider'') JUndefined,
      m_chatMessage = Some (Cls ''webrtc'' ''XMPPChatMessage''),
      m_signalingMessage = Some (Cls ''webrtc'' ''XMPPSignalingMessage''),
      m_presenceMessage = Some (Cls ''webrtc'' ''XMPPPresenceMessage''),
      m_mediaSession = None,
      m_user = None\<rparr>"

definition user_zero :: user_obj where
  "user_zero = \<lparr>user_id = ''zero'', online = True,
                session = \<lparr>userAccount = ''0'', token = ''secret'', loggedIn = True\<rparr>\<rparr>"

definition zero_store :: store where
  "zero_store = \<lparr>users = (\<lambda>a. user_zero), promises = (\<lambda>p. Pending), trace = []\<rparr>"

text \<open>The configuration of the spec's construction scenario.\<close>

definition scenario_config :: jsval where
  "scenario_config =
     JObj [(''appId'', JStr ''a1''),
           (''constraints'', JObj [(''video'', JBool True), (''audio'', JBool False)])]"

text \<open>\<^verbatim>\<open>settings.name\<close> as both \<^verbatim>\<open>setDefaultMediaSettings\<close> read it, after \<^verbatim>\<open>settings || {}\<close>.\<close>

definition settings_field :: "jsval \<Rightarrow> string \<Rightarrow> jsval" where
  "settings_field settings0 name =
     (case get_prop (js_or settings0 (JObj [])) name of Inl e \<Rightarrow> JUndefined | Inr v \<Rightarrow> v)"

section \<open>Construction and the connection state machine\<close>

lemma connected_run_calls:
  "connected (fst (run_calls calls cs)) = expected_flag calls (connected (fst cs))"
proof (induction calls cs rule: run_calls.induct)
  case (1 cs)
  then show ?case by (simp add: expected_flag_def)
next
  case (2 r calls cs)
  then show ?case by (cases calls) (auto simp: expected_flag_def connect_def split: prod.splits)
next
  case (3 r calls cs)
  then show ?case by (cases calls) (auto simp: expected_flag_def disconnect_def split: prod.splits)
qed

lemma Mercury_connected_run_calls:
  "m_connected (fst (Mercury_run_calls calls ms)) = expected_flag calls (m_connected (fst ms))"
proof (induction calls ms rule: Mercury_run_calls.induct)
  case (1 ms)
  then show ?case by (simp add: expected_flag_def)
next
  case (2 r calls ms)
  then show ?case by (cases calls) (auto simp: expected_flag_def Mercury_connect_def split: prod.splits)
next
  case (3 r calls ms)
  then show ?case by (cases calls) (auto simp: expected_flag_def Mercury_disconnect_def split: prod.splits)
qed

lemma Client_returns:
  assumes "snd (Client params rnd ns w) = Inr a"
  shows "a = next_ref w"
    and "\<exists>c. objects (fst (Client params rnd ns w)) a = Some c
            \<and> client c = number_toString (makeUniqueID rnd)
            \<and> connected c = False \<and> user c = None
            \<and> mediaSettings c =
                \<lparr>constraints = js_or (case get_prop (js_or params (JObj [])) ''constraints'' of Inr x \<Rightarrow> x | Inl e \<Rightarrow> JUndefined) default_constraints,
                 servers = js_or (case get_prop (js_or params (JObj [])) ''servers'' of Inr x \<Rightarrow> x | Inl e \<Rightarrow> JUndefined) default_servers\<rparr>"
    and "instances (fst (Client params rnd ns w)) = (instances w)(number_toString (makeUniqueID rnd) \<mapsto> a)"
  using assms by (auto simp: Client_def Let_def split: sum.splits)

lemma Client_default_returns:
  "snd (Client params rnd default_namespaces w) = Inr (next_ref w)"
  apply (simp add: Client_def Let_def default_namespaces_def findClass_def call_class_def split: sum.splits)
  apply (cases "js_or params (JObj [])")
  apply (auto simp: js_or_def split: if_splits)
  done

lemma Mercury_returns:
  assumes "Mercury params base ns = Inr m"
  shows "m_connected m = False" and "m_user m = None" and "m_userSessions m = []"
    and "that_mediaSettings m = base"
    and "m_mediaSettings m = \<lparr>constraints = Mercury_default_constraints, servers = default_servers\<rparr>"
  using assms by (auto simp: Mercury_def split: sum.splits)

lemma Mercury_default_returns:
  "\<exists>m. Mercury params base default_namespaces = Inr m"
  by (simp add: Mercury_def default_namespaces_def findClass_def call_class_def)

lemma brightstream_connect_connected:
  assumes "snd (brightstream_connect params rnd ns r (w, st)) = Inr a"
  shows "\<exists>c. objects (fst (fst (brightstream_connect params rnd ns r (w, st)))) a = Some c
           \<and> isConnected c"
  using assms
  by (auto simp: brightstream_connect_def connect_def isConnected_def
      split: prod.splits sum.splits option.splits)

text \<open>
  Claim C1. The connected flag read by \<^verbatim>\<open>isConnected()\<close> follows the state machine
  Disconnected, connect, Connected, disconnect, Disconnected: it is false right after a
  construction that returns; it is true after any \<^verbatim>\<open>connect()\<close>, whatever the signaling
  channel's \<^verbatim>\<open>open()\<close> returned; it is false after a following \<^verbatim>\<open>disconnect()\<close>; and after
  any interleaving of the two calls it is the flag of the last call. The same holds for the
  Mercury variant.
\<close>

theorem C1_connected_flag_follows_last_call:
  "(snd (Client params rnd ns w) = Inr a \<longrightarrow>
      (\<exists>c. objects (fst (Client params rnd ns w)) a = Some c \<and> isConnected c = False))
   \<and> isConnected (fst (connect r cs)) = True
   \<and> isConnected (fst (disconnect r' (connect r cs))) = False
   \<and> isConnected (fst (run_calls calls cs)) = expected_flag calls (isConnected (fst cs))
   \<and> (Mercury params base ns = Inr m \<longrightarrow> Mercury_isConnected m = False)
   \<and> Mercury_isConnected (fst (Mercury_connect r ms)) = True
   \<and> Mercury_isConnected (fst (Mercury_disconnect r' (Mercury_connect r ms))) = False
   \<and> Mercury_isConnected (fst (Mercury_run_calls calls ms))
       = expected_flag calls (Mercury_isConnected (fst ms))"
proof -
  have a: "snd (Client params rnd ns w) = Inr a \<longrightarrow>
      (\<exists>c. objects (fst (Client params rnd ns w)) a = Some c \<and> isConnected c = False)"
    using Client_returns(2) [of params rnd ns w a] by (auto simp: isConnected_def)
  have b: "isConnected (fst (connect r cs)) = True"
    by (simp add: isConnected_def connect_def split: prod.splits)
  have c: "isConnected (fst (disconnect r' (connect r cs))) = False"
    by (simp add: isConnected_def connect_def disconnect_def split: prod.splits)
  have d: "isConnected (fst (run_calls calls cs)) = expected_flag calls (isConnected (fst cs))"
    by (simp add: isConnected_def connected_run_calls)
  have e: "Mercury params base ns = Inr m \<longrightarrow> Mercury_isConnected m = False"
    using Mercury_returns(1) [of params base ns m] by (simp add: Mercury_isConnected_def)
  have f: "Mercury_isConnected (fst (Mercury_connect r ms)) = True"
    by (simp add: Mercury_isConnected_def Mercury_connect_def split: prod.splits)
  have g: "Mercury_isConnected (fst (Mercury_disconnect r' (Mercury_connect r ms))) = False"
    by (simp add: Mercury_isConnected_def Mercury_connect_def Mercury_disconnect_def split: prod.splits)
  have h: "Mercury_isConnected (fst (Mercury_run_calls calls ms))
       = expected_flag calls (Mercury_isConnected (fst ms))"
    by (simp add: Mercury_isConnected_def Mercury_connected_run_calls)
  from a b c d e f g h show ?thesis by blast
qed

text \<open>
  The construction hypotheses of C1 hold for a configuration-less construction in an empty
  registry with the default classes in scope.
\<close>

theorem C1_witness:
  "snd (Client JUndefined draw_quarter default_namespaces empty_world) = Inr 0
   \<and> (\<exists>c. objects (fst (Client JUndefined draw_quarter default_namespaces empty_world)) 0 = Some c
          \<and> isConnected c = False)
   \<and> (\<exists>m. Mercury JUndefined None default_namespaces = Inr m \<and> Mercury_isConnected m = False)"
proof -
  have s: "snd (Client JUndefined draw_quarter default_namespaces empty_world) = Inr 0"
    using Client_default_returns [of JUndefined draw_quarter empty_world] by (simp add: empty_world_def)
  obtain m where m: "Mercury JUndefined None default_namespaces = Inr m"
    using Mercury_default_returns by blast
  show ?thesis
    using s m C1_connected_flag_follows_last_call
      [where params = JUndefined and rnd = draw_quarter and ns = default_namespaces
         and w = empty_world and a = 0 and base = None and m = m]
    by blast
qed

section \<open>Double arithmetic: the range and sample values of makeUniqueID\<close>

lemma bit_length_le: "n < 2 ^ k \<Longrightarrow> bit_length n \<le> k"
proof (induction n arbitrary: k rule: bit_length.induct)
  case (1 n)
  show ?case
  proof (cases "n = 0")
    case True
    then show ?thesis by (simp add: bit_length.simps)
  next
    case False
    then obtain j where k: "k = Suc j" using "1.prems" by (cases k) auto
    then have "n div 2 < 2 ^ j" using "1.prems" by auto
    then have "bit_length (n div 2) \<le> j" using "1.IH" False by blast
    then show ?thesis using False k by (subst bit_length.simps) simp
  qed
qed

lemma floor_log2_le:
  assumes "x < 2 ^ 27"
  shows "floor_log2 x \<le> 26"
proof (cases "1 \<le> x")
  case True
  have "\<lfloor>x\<rfloor> < 2 ^ 27" using assms by (simp add: floor_less_iff)
  then have "nat \<lfloor>x\<rfloor> < 2 ^ 27" using True by (simp add: nat_less_iff)
  then have "bit_length (nat \<lfloor>x\<rfloor>) \<le> 27" by (rule bit_length_le)
  then show ?thesis using True by (simp add: floor_log2_def)
next
  case False
  then show ?thesis by (simp add: floor_log2_def)
qed

lemma round_half_even_bounds:
  assumes "0 \<le> y"
  shows "0 \<le> round_half_even y" and "of_int (round_half_even y) \<le> y + 1 / 2"
proof -
  have f: "0 \<le> \<lfloor>y\<rfloor>" using assms by simp
  then show "0 \<le> round_half_even y" by (simp add: round_half_even_def)
  have a: "of_int \<lfloor>y\<rfloor> \<le> y" by simp
  show "of_int (round_half_even y) \<le> y + 1 / 2"
  proof (cases "y - of_int \<lfloor>y\<rfloor> < 1 / 2")
    case True
    have "of_int \<lfloor>y\<rfloor> \<le> y + 1 / 2" using a by linarith
    then show ?thesis using True by (simp add: round_half_even_def)
  next
    case False
    then have "of_int (\<lfloor>y\<rfloor> + 1) \<le> y + 1 / 2" by simp
    moreover have "of_int \<lfloor>y\<rfloor> \<le> y + 1 / 2" using a by linarith
    ultimately show ?thesis using False by (simp add: round_half_even_def)
  qed
qed

lemma to_double_bounds:
  assumes "0 \<le> x" "x < 2 ^ 27"
  shows "0 \<le> to_double x" and "to_double x \<le> x + 1 / 2"
proof -
  define e where "e = max (floor_log2 x - 52) (- 1074)"
  define n where "n = nat (- e)"
  define m where "m = round_half_even (scale2 x (- e))"
  have e: "e \<le> 0" using floor_log2_le [OF assms(2)] by (simp add: e_def)
  have s: "scale2 x (- e) = x * 2 ^ n" using e by (simp add: scale2_def n_def)
  have sm: "scale2 (of_int m) e = of_int m / 2 ^ n"
    using e by (cases "e = 0") (simp_all add: scale2_def n_def)
  have y: "0 \<le> x * 2 ^ n" using assms(1) by simp
  have m0: "0 \<le> m" and m1: "of_int m \<le> x * 2 ^ n + 1 / 2"
    using round_half_even_bounds [OF y] by (simp_all add: m_def s)
  have "of_int m / 2 ^ n \<le> (x * 2 ^ n + 1 / 2) / 2 ^ n"
    using m1 by (simp add: divide_right_mono)
  also have "\<dots> = x + (1 / 2) / 2 ^ n" by (simp add: add_divide_distrib)
  also have "\<dots> \<le> x + 1 / 2"
  proof -
    have "(1::real) \<le> 2 ^ n" by simp
    then have "(1 / 2) / 2 ^ n \<le> (1 / 2 :: real)" by (simp add: field_simps)
    then show ?thesis by simp
  qed
  finally have up: "of_int m / 2 ^ n \<le> x + 1 / 2" .
  have lo: "0 \<le> real_of_int m / 2 ^ n" using m0 by simp
  have td: "to_double x = (if x \<le> 0 then 0 else of_int m / 2 ^ n)"
    by (simp add: to_double_def e_def [symmetric] m_def [symmetric] sm)
  show "0 \<le> to_double x" using lo by (simp add: td)
  show "to_double x \<le> x + 1 / 2" using up assms(1) by (simp add: td)
qed

lemma draw_value_range: "0 \<le> draw_value d" "draw_value d < 1"
proof -
  obtain m s where d: "d = Draw m s" by (cases d)
  have pos: "(0::real) < 2 ^ (53 + min s 1021)" by simp
  have nn: "0 \<le> real (unat m)" by (rule of_nat_0_le_iff)
  show "0 \<le> draw_value d"
    unfolding d draw_value.simps using nn pos by (rule divide_nonneg_pos)
  have "unat m < 2 ^ 53" using unsigned_less [of m] by simp
  also have "(2::nat) ^ 53 \<le> 2 ^ (53 + min s 1021)" by (rule power_increasing) simp_all
  finally have lt: "real (unat m) < 2 ^ (53 + min s 1021)"
    by (metis of_nat_less_iff of_nat_numeral of_nat_power)
  show "draw_value d < 1"
    unfolding d draw_value.simps by (subst divide_less_eq_1_pos) (fact pos, fact lt)
qed

lemma makeUniqueID_range:
  "0 \<le> \<lfloor>to_double (draw_value d * 100000000)\<rfloor>"
  "\<lfloor>to_double (draw_value d * 100000000)\<rfloor> \<le> 100000000"
proof -
  have x0: "0 \<le> draw_value d * 100000000" using draw_value_range(1) [of d] by simp
  have x1: "draw_value d * 100000000 < 100000000" using draw_value_range(2) [of d] by simp
  then have x2: "draw_value d * 100000000 < 2 ^ 27" by simp
  show "0 \<le> \<lfloor>to_double (draw_value d * 100000000)\<rfloor>"
    using to_double_bounds(1) [OF x0 x2] by simp
  have "to_double (draw_value d * 100000000) < 100000001"
    using to_double_bounds(2) [OF x0 x2] x1 by simp
  then show "\<lfloor>to_double (draw_value d * 100000000)\<rfloor> \<le> 100000000"
    by (simp add: floor_less_iff)
qed

lemma sint_makeUniqueID:
  "sint (makeUniqueID d) = \<lfloor>to_double (draw_value d * 100000000)\<rfloor>"
proof -
  have "- (2 ^ 53) \<le> \<lfloor>to_double (draw_value d * 100000000)\<rfloor>"
    using makeUniqueID_range(1) [of d] by simp
  moreover have "\<lfloor>to_double (draw_value d * 100000000)\<rfloor> < 2 ^ 53"
    using makeUniqueID_range(2) [of d] by simp
  ultimately show ?thesis
    by (simp add: makeUniqueID_def sint_sbintrunc' signed_take_bit_int_eq_self)
qed

text \<open>
  Sample values. The double nearest to 0.7 lies below 0.7, and so does its exact product with
  100000000; the product in double arithmetic rounds up to 70000000.
\<close>

lemma makeUniqueID_samples:
  "makeUniqueID draw_zero = 0"
  "makeUniqueID draw_quarter = 25000000"
  "makeUniqueID draw_quarter_plus = 25000000"
  "makeUniqueID draw_half = 50000000"
  "makeUniqueID draw_seven_tenths = 70000000"
  by (simp_all add: makeUniqueID_def to_double_def floor_log2_def bit_length.simps scale2_def
      round_half_even_def draw_zero_def draw_quarter_def draw_quarter_plus_def draw_half_def
      draw_seven_tenths_def)

lemma exact_product_seven_tenths:
  "\<lfloor>draw_value draw_seven_tenths * 100000000\<rfloor> = 69999999"
  by (simp add: draw_seven_tenths_def)

lemma number_toString_samples:
  "number_toString 0 = ''0''"
  "number_toString 25000000 = ''25000000''"
  "number_toString 50000000 = ''50000000''"
  by (simp_all add: number_toString_def string_of_nat.simps digit_def)

section \<open>The registry: ids and getClient\<close>

lemma digit_inj: 
  assumes "a < 10" "b < 10" "digit a = digit b" shows "a = b"
proof -
  have a: "a \<in> {0,1,2,3,4,5,6,7,8,9}" using assms(1) by auto
  have b: "b \<in> {0,1,2,3,4,5,6,7,8,9}" using assms(2) by auto
  show ?thesis using a b assms(3) by (auto simp: digit_def)
qed

lemma digit_not_minus:
  assumes "a < 10" shows "digit a \<noteq> CHR ''-''"
proof -
  have a: "a \<in> {0,1,2,3,4,5,6,7,8,9}" using assms(1) by auto
  show ?thesis using a by (auto simp: digit_def)
qed

lemma string_of_nat_nonempty: "string_of_nat n \<noteq> []"
  by (subst string_of_nat.simps) simp

lemma string_of_nat_inj: "string_of_nat n = string_of_nat m \<Longrightarrow> n = m"
proof (induction n arbitrary: m rule: string_of_nat.induct)
  case (1 n)
  show ?case
  proof (cases "n < 10")
    case n: True
    show ?thesis
    proof (cases "m < 10")
      case True
      with n "1.prems" have "[digit n] = [digit m]"
        by (subst (asm) string_of_nat.simps, subst (asm) (2) string_of_nat.simps) simp
      with n True show ?thesis
        by (simp add: digit_inj)
    next
      case False
      with n "1.prems" have "[digit n] = string_of_nat (m div 10) @ [digit (m mod 10)]"
        by (subst (asm) string_of_nat.simps, subst (asm) (2) string_of_nat.simps) simp
      then show ?thesis using string_of_nat_nonempty [of "m div 10"] by simp
    qed
  next
    case n: False
    show ?thesis
    proof (cases "m < 10")
      case True
      with n "1.prems" have "string_of_nat (n div 10) @ [digit (n mod 10)] = [digit m]"
        by (subst (asm) string_of_nat.simps, subst (asm) (2) string_of_nat.simps) simp
      then show ?thesis using string_of_nat_nonempty [of "n div 10"] by simp
    next
      case False
      with n "1.prems" have e: "string_of_nat (n div 10) @ [digit (n mod 10)]
          = string_of_nat (m div 10) @ [digit (m mod 10)]"
        by (subst (asm) string_of_nat.simps, subst (asm) (2) string_of_nat.simps) simp
      then have "string_of_nat (n div 10) = string_of_nat (m div 10)"
        and d: "digit (n mod 10) = digit (m mod 10)" by simp_all
      then have q: "n div 10 = m div 10" using "1.IH" n by blast
      have r: "n mod 10 = m mod 10" using d by (intro digit_inj) simp_all
      show ?thesis using q r by (metis div_mult_mod_eq)
    qed
  qed
qed

lemma hd_string_of_nat_not_minus: "hd (string_of_nat n) \<noteq> CHR ''-''"
proof (induction n rule: string_of_nat.induct)
  case (1 n)
  show ?case
  proof (cases "n < 10")
    case True
    then show ?thesis by (subst string_of_nat.simps) (simp add: digit_not_minus)
  next
    case False
    then show ?thesis using "1.IH" string_of_nat_nonempty [of "n div 10"]
      by (subst string_of_nat.simps) simp
  qed
qed

lemma number_toString_inj: "number_toString i = number_toString j \<Longrightarrow> i = j"
proof -
  assume e: "number_toString i = number_toString j"
  have "sint i = sint j"
  proof (cases "sint i < 0")
    case i: True
    show ?thesis
    proof (cases "sint j < 0")
      case True
      with i e have "nat (- sint i) = nat (- sint j)"
        by (simp add: number_toString_def string_of_nat_inj)
      with i True show ?thesis by simp
    next
      case False
      with i e have "CHR ''-'' # string_of_nat (nat (- sint i)) = string_of_nat (nat (sint j))"
        by (simp add: number_toString_def)
      then have "hd (string_of_nat (nat (sint j))) = CHR ''-''" by (metis list.sel(1))
      then show ?thesis using hd_string_of_nat_not_minus by blast
    qed
  next
    case i: False
    show ?thesis
    proof (cases "sint j < 0")
      case True
      with i e have "string_of_nat (nat (sint i)) = CHR ''-'' # string_of_nat (nat (- sint j))"
        by (simp add: number_toString_def)
      then have "hd (string_of_nat (nat (sint i))) = CHR ''-''" by (metis list.sel(1))
      then show ?thesis using hd_string_of_nat_not_minus by blast
    next
      case False
      with i e have "nat (sint i) = nat (sint j)"
        by (simp add: number_toString_def string_of_nat_inj)
      with i False show ?thesis by simp
    qed
  qed
  then show ?thesis by (rule signed_word_eqI)
qed

lemma getClient_result:
  "snd (getClient i w) = (case to_key i of Inl e \<Rightarrow> Inl e | Inr k \<Rightarrow> Inr (instances_get w k))"
  by (simp add: getClient_def Let_def instances_get_def split: sum.splits)

lemma getClient_world:
  "fst (getClient i w) =
     w\<lparr>console := console w @ (if i = JUndefined then [LogNoClientId] else [])
                    @ (case to_key i of
                         Inl e \<Rightarrow> []
                       | Inr k \<Rightarrow> if instances_get w k = None then [LogNoInstance i] else [])\<rparr>"
  by (simp add: getClient_def Let_def instances_get_def split: sum.splits)

lemma hd_string_of_nat_digit: "hd (string_of_nat n) \<in> set ''0123456789''"
proof (induction n rule: string_of_nat.induct)
  case (1 n)
  show ?case
  proof (cases "n < 10")
    case True
    then have "n \<in> {0,1,2,3,4,5,6,7,8,9}" by auto
    then show ?thesis by (subst string_of_nat.simps) (auto simp: digit_def)
  next
    case False
    then show ?thesis using "1.IH" string_of_nat_nonempty [of "n div 10"]
      by (subst string_of_nat.simps) simp
  qed
qed

lemma hd_number_toString: "hd (number_toString n) \<in> set ''-0123456789''"
  using hd_string_of_nat_digit [of "nat (sint n)"] by (auto simp: number_toString_def)

lemma number_key_not_inherited: "number_toString n \<notin> set object_prototype"
proof
  assume "number_toString n \<in> set object_prototype"
  then have "hd (number_toString n) \<in> hd ` set object_prototype" by auto
  then have "hd (number_toString n) \<in> set ''ctvhip_''" by (auto simp: object_prototype_def)
  then show False using hd_number_toString [of n] by auto
qed

lemma undefined_key_not_inherited: "''undefined'' \<notin> set object_prototype"
  by (simp add: object_prototype_def)

lemma number_toString_not_undefined: "number_toString n \<noteq> ''undefined''"
proof
  assume "number_toString n = ''undefined''"
  then have "hd (number_toString n) = CHR ''u''" by simp
  then show False using hd_number_toString [of n] by auto
qed

lemma Client_instances:
  "instances (fst (Client params rnd ns w))
     = (instances w)(number_toString (makeUniqueID rnd) \<mapsto> next_ref w)"
  by (simp add: Client_def Let_def split: sum.splits)

lemma Client_next_ref: "next_ref (fst (Client params rnd ns w)) = Suc (next_ref w)"
  by (simp add: Client_def Let_def split: sum.splits)

lemma Client_objects_other:
  "a \<noteq> next_ref w \<Longrightarrow> objects (fst (Client params rnd ns w)) a = objects w a"
  by (simp add: Client_def Let_def split: sum.splits)

lemma next_ref_construct_all: "next_ref (construct_all cs w) = next_ref w + length cs"
  by (induction cs w rule: construct_all.induct) (simp_all add: Client_next_ref)

lemma objects_construct_all:
  "a < next_ref w \<Longrightarrow> objects (construct_all cs w) a = objects w a"
proof (induction cs w rule: construct_all.induct)
  case (1 w)
  then show ?case by simp
next
  case (2 params rnd ns cs w)
  have "a < next_ref (fst (Client params rnd ns w))" using "2.prems" by (simp add: Client_next_ref)
  then have "objects (construct_all cs (fst (Client params rnd ns w))) a
      = objects (fst (Client params rnd ns w)) a" by (rule "2.IH")
  also have "\<dots> = objects w a" using "2.prems" by (simp add: Client_objects_other)
  finally show ?case by simp
qed

lemma instances_construct_all:
  "instances (construct_all cs w) k =
     (case last_draw k cs of Some j \<Rightarrow> Some (next_ref w + j) | None \<Rightarrow> instances w k)"
proof (induction cs w rule: construct_all.induct)
  case (1 w)
  then show ?case by simp
next
  case (2 params rnd ns cs w)
  show ?case
    using "2.IH"
    by (simp add: Client_next_ref Client_instances split: option.splits)
qed

lemma last_draw_None: "(last_draw k cs = None) = (\<forall>c\<in>set cs. \<not> draws_id k c)"
  by (induction cs) (auto split: option.splits)

lemma instances_get_construct_all:
  "instances_get (construct_all cs w) k =
     (case last_draw k cs of Some j \<Rightarrow> Some (Facade (next_ref w + j)) | None \<Rightarrow> instances_get w k)"
  by (simp add: instances_get_def instances_construct_all split: option.splits)

text \<open>
  Claim C2, as amended. After a construction that returns, and after any later constructions
  none of which draws the same id, \<^verbatim>\<open>getClient\<close> called with that fa\<^verbatim>\<open>c\<close>ade's id (the string
  \<^verbatim>\<open>getID()\<close> returns, or the number it prints) returns that very object. After any sequence
  of constructions \<^verbatim>\<open>getClient(id)\<close> returns the fa\<^verbatim>\<open>c\<close>ade of the last construction that
  drew the key of \<open>id\<close>, and what the registry held before when none did. For an id never
  assigned whose key is not a name inherited from \<^verbatim>\<open>Object.prototype\<close> it returns
  \<^verbatim>\<open>undefined\<close> and only logs. It throws exactly when the id cannot be converted to a
  property key, which never happens for \<^verbatim>\<open>undefined\<close>, a number or a string. The key of a
  number and the key of \<^verbatim>\<open>undefined\<close> are never inherited names, and no construction
  assigns the key of \<^verbatim>\<open>undefined\<close>.
\<close>

theorem C2_getClient_returns_registered:
  "(snd (Client params rnd ns w) = Inr a
      \<and> (\<forall>c\<in>set later. \<not> draws_id (number_toString (makeUniqueID rnd)) c) \<longrightarrow>
      (\<exists>c. objects (construct_all later (fst (Client params rnd ns w))) a = Some c
          \<and> getID c = number_toString (makeUniqueID rnd)
          \<and> snd (getClient (JStr (getID c)) (construct_all later (fst (Client params rnd ns w))))
              = Inr (Some (Facade a))
          \<and> snd (getClient (JNum (makeUniqueID rnd)) (construct_all later (fst (Client params rnd ns w))))
              = Inr (Some (Facade a))))
   \<and> (to_key i = Inr k \<longrightarrow>
        snd (getClient i (construct_all cs w)) =
          Inr (case last_draw k cs of
                 Some j \<Rightarrow> Some (Facade (next_ref w + j))
               | None \<Rightarrow> instances_get w k))
   \<and> (to_key i = Inr k \<and> instances w k = None \<and> k \<notin> set object_prototype \<longrightarrow>
        getClient i w =
          (w\<lparr>console := console w @ (if i = JUndefined then [LogNoClientId] else [])
                              @ [LogNoInstance i]\<rparr>, Inr None))
   \<and> ((snd (getClient i w) = Inl e) = (to_key i = Inl e))
   \<and> (\<exists>r. snd (getClient JUndefined w) = Inr r)
   \<and> (\<exists>r. snd (getClient (JNum n) w) = Inr r)
   \<and> (\<exists>r. snd (getClient (JStr s) w) = Inr r)
   \<and> number_toString n \<notin> set object_prototype
   \<and> ''undefined'' \<notin> set object_prototype
   \<and> (instances w ''undefined'' = None \<longrightarrow> instances (construct_all cs w) ''undefined'' = None)"
proof -
  have p1: "snd (Client params rnd ns w) = Inr a
      \<and> (\<forall>c\<in>set later. \<not> draws_id (number_toString (makeUniqueID rnd)) c) \<longrightarrow>
      (\<exists>c. objects (construct_all later (fst (Client params rnd ns w))) a = Some c
          \<and> getID c = number_toString (makeUniqueID rnd)
          \<and> snd (getClient (JStr (getID c)) (construct_all later (fst (Client params rnd ns w))))
              = Inr (Some (Facade a))
          \<and> snd (getClient (JNum (makeUniqueID rnd)) (construct_all later (fst (Client params rnd ns w))))
              = Inr (Some (Facade a)))"
  proof
    assume h: "snd (Client params rnd ns w) = Inr a
      \<and> (\<forall>c\<in>set later. \<not> draws_id (number_toString (makeUniqueID rnd)) c)"
    then have s: "snd (Client params rnd ns w) = Inr a" by blast
    from h have n: "last_draw (number_toString (makeUniqueID rnd)) later = None"
      by (simp add: last_draw_None)
    from Client_returns(2) [OF s] obtain c where
      c: "objects (fst (Client params rnd ns w)) a = Some c"
      and i: "client c = number_toString (makeUniqueID rnd)" by blast
    have a: "a = next_ref w" using Client_returns(1) [OF s] .
    then have "a < next_ref (fst (Client params rnd ns w))" by (simp add: Client_next_ref)
    then have o: "objects (construct_all later (fst (Client params rnd ns w))) a = Some c"
      using c by (simp add: objects_construct_all)
    have r: "instances_get (construct_all later (fst (Client params rnd ns w)))
               (number_toString (makeUniqueID rnd)) = Some (Facade a)"
    proof -
      have "instances (construct_all later (fst (Client params rnd ns w)))
               (number_toString (makeUniqueID rnd)) = Some a"
        using n a by (simp add: instances_construct_all Client_instances)
      then show ?thesis by (simp add: instances_get_def)
    qed
    have g1: "snd (getClient (JStr (getID c)) (construct_all later (fst (Client params rnd ns w))))
              = Inr (Some (Facade a))"
      using r i by (simp add: getClient_result getID_def)
    have g2: "snd (getClient (JNum (makeUniqueID rnd)) (construct_all later (fst (Client params rnd ns w))))
              = Inr (Some (Facade a))"
      using r by (simp add: getClient_result)
    from o i g1 g2 show "\<exists>c. objects (construct_all later (fst (Client params rnd ns w))) a = Some c
          \<and> getID c = number_toString (makeUniqueID rnd)
          \<and> snd (getClient (JStr (getID c)) (construct_all later (fst (Client params rnd ns w))))
              = Inr (Some (Facade a))
          \<and> snd (getClient (JNum (makeUniqueID rnd)) (construct_all later (fst (Client params rnd ns w))))
              = Inr (Some (Facade a))"
      by (auto simp: getID_def)
  qed
  have p2: "to_key i = Inr k \<longrightarrow>
        snd (getClient i (construct_all cs w)) =
          Inr (case last_draw k cs of
                 Some j \<Rightarrow> Some (Facade (next_ref w + j))
               | None \<Rightarrow> instances_get w k)"
    by (simp add: getClient_result instances_get_construct_all)
  have p3: "to_key i = Inr k \<and> instances w k = None \<and> k \<notin> set object_prototype \<longrightarrow>
        getClient i w =
          (w\<lparr>console := console w @ (if i = JUndefined then [LogNoClientId] else [])
                              @ [LogNoInstance i]\<rparr>, Inr None)"
    by (simp add: prod_eq_iff getClient_result getClient_world instances_get_def)
  have p4: "(snd (getClient i w) = Inl e) = (to_key i = Inl e)"
    by (simp add: getClient_result split: sum.splits)
  have p5: "\<exists>r. snd (getClient JUndefined w) = Inr r"
    "\<exists>r. snd (getClient (JNum n) w) = Inr r"
    "\<exists>r. snd (getClient (JStr s) w) = Inr r"
    by (simp_all add: getClient_result)
  have p6: "instances w ''undefined'' = None \<longrightarrow> instances (construct_all cs w) ''undefined'' = None"
  proof -
    have "last_draw ''undefined'' cs = None"
      by (auto simp: last_draw_None number_toString_not_undefined)
    then show ?thesis by (simp add: instances_construct_all)
  qed
  show ?thesis
    by (intro conjI p1 p2 p3 p4 p5 p6 number_key_not_inherited undefined_key_not_inherited)
qed

text \<open>
  The hypotheses of C2: a construction in the empty registry followed by one that draws another
  id, the unassigned id 7, and \<^verbatim>\<open>undefined\<close>.
\<close>

theorem C2_witness:
  "snd (Client JUndefined draw_quarter default_namespaces empty_world) = Inr 0
   \<and> draws_id ''25000000'' (JUndefined, draw_half, default_namespaces) = False
   \<and> snd (getClient (JStr ''25000000'')
            (construct_all [(JUndefined, draw_half, default_namespaces)]
               (fst (Client JUndefined draw_quarter default_namespaces empty_world))))
       = Inr (Some (Facade 0))
   \<and> to_key (JNum 7) = Inr ''7''
   \<and> instances empty_world ''7'' = None
   \<and> ''7'' \<notin> set object_prototype
   \<and> getClient (JNum 7) empty_world = (empty_world\<lparr>console := [LogNoInstance (JNum 7)]\<rparr>, Inr None)
   \<and> instances empty_world ''undefined'' = None
   \<and> instances (construct_all [(JUndefined, draw_half, default_namespaces)] empty_world) ''undefined''
       = None"
proof -
  have s: "snd (Client JUndefined draw_quarter default_namespaces empty_world) = Inr 0"
    using Client_default_returns [of JUndefined draw_quarter empty_world] by (simp add: empty_world_def)
  have d: "draws_id ''25000000'' (JUndefined, draw_half, default_namespaces) = False"
    by (simp add: makeUniqueID_samples number_toString_samples)
  have b: "\<forall>c\<in>set [(JUndefined, draw_half, default_namespaces)].
             \<not> draws_id (number_toString (makeUniqueID draw_quarter)) c"
    by (simp add: makeUniqueID_samples number_toString_samples)
  have k: "to_key (JNum 7) = Inr ''7''"
    by (simp add: number_toString_def string_of_nat.simps digit_def)
  have e: "instances empty_world ''7'' = None" "instances empty_world ''undefined'' = None"
    "console empty_world = []"
    by (simp_all add: empty_world_def)
  have n: "''7'' \<notin> set object_prototype" by (simp add: object_prototype_def)
  note inst = C2_getClient_returns_registered
      [where params = JUndefined and rnd = draw_quarter and ns = default_namespaces
         and w = empty_world and a = 0 and later = "[(JUndefined, draw_half, default_namespaces)]"
         and i = "JNum 7" and k = "''7''" and cs = "[(JUndefined, draw_half, default_namespaces)]"]
  have i4: "number_toString (makeUniqueID draw_quarter) = ''25000000''"
    by (simp add: makeUniqueID_samples number_toString_samples)
  from inst [THEN conjunct1] s b obtain c where
    c: "getID c = number_toString (makeUniqueID draw_quarter)"
    and gc: "snd (getClient (JStr (getID c))
            (construct_all [(JUndefined, draw_half, default_namespaces)]
               (fst (Client JUndefined draw_quarter default_namespaces empty_world))))
       = Inr (Some (Facade 0))"
    by blast
  have g: "snd (getClient (JStr ''25000000'')
            (construct_all [(JUndefined, draw_half, default_namespaces)]
               (fst (Client JUndefined draw_quarter default_namespaces empty_world))))
       = Inr (Some (Facade 0))"
    using gc c i4 by simp
  have m: "getClient (JNum 7) empty_world = (empty_world\<lparr>console := [LogNoInstance (JNum 7)]\<rparr>, Inr None)"
    using inst [THEN conjunct2, THEN conjunct2, THEN conjunct1] k e n by simp
  have u: "instances (construct_all [(JUndefined, draw_half, default_namespaces)] empty_world) ''undefined''
       = None"
    using inst e by blast
  from s d g k e n m u show ?thesis by blast
qed

text \<open>
  Claim C2 as stated fails three times. The id \<^verbatim>\<open>'isNumber'\<close> was never assigned, yet
  \<^verbatim>\<open>getClient('isNumber')\<close> returns the function \<^verbatim>\<open>brightstream.js\<close> puts on
  \<^verbatim>\<open>Object.prototype\<close>, and logs nothing. \<^verbatim>\<open>getClient({toString: 5})\<close> throws a TypeError.
  And when two constructions draw the same number, \<^verbatim>\<open>getClient\<close> with the first fa\<^verbatim>\<open>c\<close>ade's
  id returns the second fa\<^verbatim>\<open>c\<close>ade.
\<close>

theorem C2_counterexample:
  "instances empty_world ''isNumber'' = None
   \<and> getClient (JStr ''isNumber'') empty_world = (empty_world, Inr (Some (Inherited ''isNumber'')))
   \<and> getClient (JObj [(''toString'', JNum 5)]) empty_world = (empty_world, Inl TypeError)
   \<and> fst (snd (construct_two JUndefined draw_zero JUndefined draw_zero default_namespaces empty_world)) = Inr 0
   \<and> snd (snd (construct_two JUndefined draw_zero JUndefined draw_zero default_namespaces empty_world)) = Inr 1
   \<and> map_option getID (objects (fst (construct_two JUndefined draw_zero JUndefined draw_zero default_namespaces empty_world)) 0)
       = Some ''0''
   \<and> snd (getClient (JStr ''0'') (fst (construct_two JUndefined draw_zero JUndefined draw_zero default_namespaces empty_world)))
       = Inr (Some (Facade 1))"
  by (simp add: getClient_def instances_get_def empty_world_def object_prototype_def Let_def
      construct_two_def Client_def default_namespaces_def findClass_def call_class_def
      js_or_def makeUniqueID_samples number_toString_samples getID_def)

lemma construct_two_eq:
  "construct_two p1 r1 p2 r2 ns w =
     (fst (Client p2 r2 ns (fst (Client p1 r1 ns w))),
      snd (Client p1 r1 ns w),
      snd (Client p2 r2 ns (fst (Client p1 r1 ns w))))"
  by (simp add: construct_two_def split: prod.splits)

lemma Client_objects:
  assumes "snd (Client params rnd ns w) = Inr a"
  shows "\<exists>c. objects (fst (Client params rnd ns w)) = (objects w)(a \<mapsto> c)
            \<and> client c = number_toString (makeUniqueID rnd)"
    and "next_ref (fst (Client params rnd ns w)) = Suc (next_ref w)"
  using assms by (auto simp: Client_def Let_def split: sum.splits)

text \<open>
  Claim C9, as amended. Two fa\<^verbatim>\<open>c\<close>ades constructed in sequence are distinct objects, and
  their ids are equal exactly when \<^verbatim>\<open>makeUniqueID\<close> computed the same number for both.
  \<^verbatim>\<open>getClient\<close> with the second id returns the second fa\<^verbatim>\<open>c\<close>ade; with the first id it
  returns the first fa\<^verbatim>\<open>c\<close>ade when the two numbers differ, and the second when they collide.
\<close>

theorem C9_distinct_draws_own_instances:
  "construct_two p1 r1 p2 r2 ns w = (w2, Inr a1, Inr a2) \<longrightarrow>
     (\<exists>c1 c2. objects w2 a1 = Some c1 \<and> objects w2 a2 = Some c2 \<and> a1 \<noteq> a2
        \<and> (getID c1 = getID c2) = (makeUniqueID r1 = makeUniqueID r2)
        \<and> snd (getClient (JStr (getID c2)) w2) = Inr (Some (Facade a2))
        \<and> (makeUniqueID r1 \<noteq> makeUniqueID r2 \<longrightarrow>
             snd (getClient (JStr (getID c1)) w2) = Inr (Some (Facade a1)))
        \<and> (makeUniqueID r1 = makeUniqueID r2 \<longrightarrow>
             snd (getClient (JStr (getID c1)) w2) = Inr (Some (Facade a2))))"
proof
  assume t: "construct_two p1 r1 p2 r2 ns w = (w2, Inr a1, Inr a2)"
  define w1 where "w1 = fst (Client p1 r1 ns w)"
  have s1: "snd (Client p1 r1 ns w) = Inr a1"
    using t by (auto simp: construct_two_def split: prod.splits)
  have s2: "snd (Client p2 r2 ns w1) = Inr a2" and w2: "w2 = fst (Client p2 r2 ns w1)"
    using t by (auto simp: construct_two_def w1_def split: prod.splits)
  from Client_objects(1) [OF s1] obtain c1 where
    o1: "objects w1 = (objects w)(a1 \<mapsto> c1)" and i1: "client c1 = number_toString (makeUniqueID r1)"
    unfolding w1_def by blast
  from Client_objects(1) [OF s2] obtain c2 where
    o2: "objects w2 = (objects w1)(a2 \<mapsto> c2)" and i2: "client c2 = number_toString (makeUniqueID r2)"
    unfolding w2 by blast
  have a1: "a1 = next_ref w" using Client_returns(1) [OF s1] .
  have a2: "a2 = Suc a1"
    using Client_returns(1) [OF s2] Client_objects(2) [OF s1] a1 by (simp add: w1_def)
  have ne: "a1 \<noteq> a2" using a2 by simp
  have r1: "instances w1 = (instances w)(number_toString (makeUniqueID r1) \<mapsto> a1)"
    using Client_returns(3) [OF s1] by (simp add: w1_def)
  have r2: "instances w2 = (instances w1)(number_toString (makeUniqueID r2) \<mapsto> a2)"
    using Client_returns(3) [OF s2] by (simp add: w2)
  have ids: "(getID c1 = getID c2) = (makeUniqueID r1 = makeUniqueID r2)"
    using i1 i2 number_toString_inj by (auto simp: getID_def)
  have g2: "snd (getClient (JStr (getID c2)) w2) = Inr (Some (Facade a2))"
    using r2 i2 by (simp add: getClient_result instances_get_def getID_def)
  have g1: "makeUniqueID r1 \<noteq> makeUniqueID r2 \<longrightarrow>
             snd (getClient (JStr (getID c1)) w2) = Inr (Some (Facade a1))"
    using r1 r2 i1 ids i2 by (simp add: getClient_result instances_get_def getID_def)
  have g3: "makeUniqueID r1 = makeUniqueID r2 \<longrightarrow>
             snd (getClient (JStr (getID c1)) w2) = Inr (Some (Facade a2))"
    using r2 i1 by (simp add: getClient_result instances_get_def getID_def)
  have "objects w2 a1 = Some c1" using o1 o2 ne by simp
  moreover have "objects w2 a2 = Some c2" using o2 by simp
  ultimately show "\<exists>c1 c2. objects w2 a1 = Some c1 \<and> objects w2 a2 = Some c2 \<and> a1 \<noteq> a2
        \<and> (getID c1 = getID c2) = (makeUniqueID r1 = makeUniqueID r2)
        \<and> snd (getClient (JStr (getID c2)) w2) = Inr (Some (Facade a2))
        \<and> (makeUniqueID r1 \<noteq> makeUniqueID r2 \<longrightarrow>
             snd (getClient (JStr (getID c1)) w2) = Inr (Some (Facade a1)))
        \<and> (makeUniqueID r1 = makeUniqueID r2 \<longrightarrow>
             snd (getClient (JStr (getID c1)) w2) = Inr (Some (Facade a2)))"
    using ne ids g1 g2 g3 by blast
qed

lemma construct_two_default:
  "snd (construct_two p1 r1 p2 r2 default_namespaces w) = (Inr (next_ref w), Inr (Suc (next_ref w)))"
proof -
  have s1: "snd (Client p1 r1 default_namespaces w) = Inr (next_ref w)"
    by (rule Client_default_returns)
  have "snd (Client p2 r2 default_namespaces (fst (Client p1 r1 default_namespaces w)))
      = Inr (Suc (next_ref w))"
    using Client_default_returns [of p2 r2 "fst (Client p1 r1 default_namespaces w)"]
      Client_objects(2) [OF s1] by simp
  with s1 show ?thesis by (simp add: construct_two_eq)
qed

text \<open>
  The hypotheses of C9 at the draws 0.25 and 0.5 with the default classes in scope.
\<close>

theorem C9_witness:
  "construct_two JUndefined draw_quarter JUndefined draw_half default_namespaces empty_world
     = (fst (construct_two JUndefined draw_quarter JUndefined draw_half default_namespaces empty_world), Inr 0, Inr 1)
   \<and> makeUniqueID draw_quarter \<noteq> makeUniqueID draw_half
   \<and> (\<exists>c1 c2. objects (fst (construct_two JUndefined draw_quarter JUndefined draw_half default_namespaces empty_world)) 0 = Some c1
        \<and> objects (fst (construct_two JUndefined draw_quarter JUndefined draw_half default_namespaces empty_world)) 1 = Some c2
        \<and> getID c1 \<noteq> getID c2
        \<and> snd (getClient (JStr (getID c1)) (fst (construct_two JUndefined draw_quarter JUndefined draw_half default_namespaces empty_world)))
            = Inr (Some (Facade 0))
        \<and> snd (getClient (JStr (getID c2)) (fst (construct_two JUndefined draw_quarter JUndefined draw_half default_namespaces empty_world)))
            = Inr (Some (Facade 1)))"
proof -
  have t: "construct_two JUndefined draw_quarter JUndefined draw_half default_namespaces empty_world
     = (fst (construct_two JUndefined draw_quarter JUndefined draw_half default_namespaces empty_world), Inr 0, Inr 1)"
    using construct_two_default [of JUndefined draw_quarter JUndefined draw_half empty_world]
    by (simp add: empty_world_def prod_eq_iff)
  have d: "makeUniqueID draw_quarter \<noteq> makeUniqueID draw_half"
    by (simp add: makeUniqueID_samples)
  show ?thesis
    using t d C9_distinct_draws_own_instances
      [where ?p1.0 = JUndefined and ?r1.0 = draw_quarter and ?p2.0 = JUndefined and ?r2.0 = draw_half
         and ns = default_namespaces and w = empty_world and ?a1.0 = 0 and ?a2.0 = 1
         and ?w2.0 = "fst (construct_two JUndefined draw_quarter JUndefined draw_half default_namespaces empty_world)"]
    by blast
qed

text \<open>
  Claim C9 as stated fails when two draws give the same floor: the doubles 0.25 and
  0.25 + 2^-30 both give the id 25000000, and \<^verbatim>\<open>getClient\<close> with the first
  fa\<^verbatim>\<open>c\<close>ade's id returns the second fa\<^verbatim>\<open>c\<close>ade.
\<close>

theorem C9_counterexample:
  "fst (snd (construct_two JUndefined draw_quarter JUndefined draw_quarter_plus default_namespaces empty_world)) = Inr 0
   \<and> snd (snd (construct_two JUndefined draw_quarter JUndefined draw_quarter_plus default_namespaces empty_world)) = Inr 1
   \<and> map_option getID (objects (fst (construct_two JUndefined draw_quarter JUndefined draw_quarter_plus default_namespaces empty_world)) 0)
       = Some ''25000000''
   \<and> map_option getID (objects (fst (construct_two JUndefined draw_quarter JUndefined draw_quarter_plus default_namespaces empty_world)) 1)
       = Some ''25000000''
   \<and> snd (getClient (JStr ''25000000'')
            (fst (construct_two JUndefined draw_quarter JUndefined draw_quarter_plus default_namespaces empty_world)))
       = Inr (Some (Facade 1))"
  by (simp add: getClient_def instances_get_def empty_world_def object_prototype_def Let_def
      construct_two_def Client_def default_namespaces_def findClass_def call_class_def
      js_or_def makeUniqueID_samples number_toString_samples getID_def)

section \<open>Login\<close>

lemma login_returns_promise:
  "fst (login account tok p cs) = p"
  "snd (login account tok p cs) = (fst cs, emit (IdpLogin account tok) (snd cs))"
  by (simp_all add: login_def split: prod.splits)

lemma Mercury_login_returns_promise:
  "fst (Mercury_login account tok p ms) = p"
  "snd (Mercury_login account tok p ms) = (fst ms, emit (IdpLogin account tok) (snd ms))"
  by (simp_all add: Mercury_login_def split: prod.splits)



lemma continuation_fulfilled:
  assumes "promises st p = Fulfilled u"
  shows "login_continuation p (c, st) =
           (c\<lparr>user := Some u\<rparr>,
            emit (LogDebugUser u)
              (emit (LogInfo (''logged in as user '' @ user_id (users st u))) (setOnline u st)))"
  using assms by (simp add: login_continuation_def login_fulfilled_def Let_def setOnline_def emit_def)

lemma Mercury_continuation_fulfilled:
  assumes "promises st p = Fulfilled u"
  shows "Mercury_login_continuation p (m, st) =
           (m\<lparr>m_user := Some u\<rparr>,
            emit (LogDebugUser u) (emit (LogInfo ''logged in as user'') (setOnline u st)))"
  using assms by (simp add: Mercury_login_continuation_def Mercury_login_fulfilled_def Let_def)

lemma settle_pending:
  assumes "promises st p = Pending"
  shows "promises (settle p outcome st) p = outcome"
    and "users (settle p outcome st) = users st"
    and "trace (settle p outcome st) = trace st"
  using assms by (simp_all add: settle_def)

lemma emit_fields [simp]:
  "users (emit e st) = users st"
  "promises (emit e st) = promises st"
  "trace (emit e st) = trace st @ [e]"
  by (simp_all add: emit_def)







text \<open>
  A fulfilled login on the Client: the user is marked online, becomes the current user, and
  \<^verbatim>\<open>isLoggedIn()\<close> reports the session of that user.
\<close>

lemma login_settled_fulfilled:
  assumes "promises st p = Pending"
  shows "login_settled account tok p (Fulfilled u) (c, st) =
     (p, (c\<lparr>user := Some u\<rparr>,
          emit (LogDebugUser u)
            (emit (LogInfo (''logged in as user '' @ user_id (users st u)))
               (setOnline u (settle p (Fulfilled u) (emit (IdpLogin account tok) st))))))"
proof -
  have "promises (settle p (Fulfilled u) (emit (IdpLogin account tok) st)) p = Fulfilled u"
    using assms by (simp add: settle_pending(1))
  moreover have "users (settle p (Fulfilled u) (emit (IdpLogin account tok) st)) = users st"
    using assms by (simp add: settle_pending(2))
  ultimately show ?thesis
    by (simp add: login_settled_def login_def continuation_fulfilled)
qed

lemma Mercury_login_settled_fulfilled:
  assumes "promises st p = Pending"
  shows "Mercury_login_settled account tok p (Fulfilled u) (m, st) =
     (p, (m\<lparr>m_user := Some u\<rparr>,
          emit (LogDebugUser u)
            (emit (LogInfo ''logged in as user'')
               (setOnline u (settle p (Fulfilled u) (emit (IdpLogin account tok) st))))))"
proof -
  have "promises (settle p (Fulfilled u) (emit (IdpLogin account tok) st)) p = Fulfilled u"
    using assms by (simp add: settle_pending(1))
  then show ?thesis
    by (simp add: Mercury_login_settled_def Mercury_login_def Mercury_continuation_fulfilled)
qed

lemma setOnline_fields:
  "users (setOnline u st) = (users st)(u := (users st u)\<lparr>online := True\<rparr>)"
  "promises (setOnline u st) = promises st"
  "trace (setOnline u st) = trace st @ [SetOnline u]"
  by (simp_all add: setOnline_def)

lemma Client_login_fulfilled:
  assumes "promises st p = Pending"
  shows "case login_settled account tok p (Fulfilled u) (c, st) of
        (q, (c', st')) \<Rightarrow>
          q = p \<and> promises st' p = Fulfilled u
          \<and> user c' = Some u \<and> c' = c\<lparr>user := Some u\<rparr>
          \<and> users st' = (users st)(u := (users st u)\<lparr>online := True\<rparr>)
          \<and> isLoggedIn (c', st') = loggedIn (session (users st u))
          \<and> trace st' = trace st @ [IdpLogin account tok, SetOnline u,
                LogInfo (''logged in as user '' @ user_id (users st u)), LogDebugUser u]"
  using assms
  by (simp add: login_settled_fulfilled setOnline_fields settle_pending isLoggedIn_def)

lemma Mercury_login_keeps_isLoggedIn:
  assumes "promises st p = Pending"
  shows "case Mercury_login_settled account tok p (Fulfilled u) (m, st) of
        (q, (m', st')) \<Rightarrow>
          q = p \<and> promises st' p = Fulfilled u
          \<and> m_user m' = Some u \<and> m_userSessions m' = m_userSessions m
          \<and> users st' = (users st)(u := (users st u)\<lparr>online := True\<rparr>)
          \<and> Mercury_isLoggedIn m' = Mercury_isLoggedIn m"
  using assms
  by (simp add: Mercury_login_settled_fulfilled setOnline_fields settle_pending Mercury_isLoggedIn_def)

lemma Client_default_object:
  "objects (fst (Client JUndefined draw_quarter default_namespaces empty_world)) 0 = Some client0"
  by (simp add: Client_def Let_def default_namespaces_def findClass_def call_class_def
      empty_world_def js_or_def makeUniqueID_samples number_toString_samples client0_def)

lemma Mercury_default_object: "Mercury JUndefined None default_namespaces = Inr mercury0"
  by (simp add: Mercury_def default_namespaces_def findClass_def call_class_def mercury0_def)

text \<open>
  Claim C3 at the failing input, in the Mercury variant: a login whose future is fulfilled with
  a User whose session is logged in. \<^verbatim>\<open>login\<close> returns the identity provider's future, the
  user is marked online and stored as the current user, but the session is not added to
  \<^verbatim>\<open>userSessions\<close>, the only thing Mercury's \<^verbatim>\<open>isLoggedIn()\<close> reads: it still answers
  false.
\<close>

theorem C3_Mercury_login_not_logged_in:
  "Mercury JUndefined None default_namespaces = Inr mercury0
   \<and> promises empty_store 3 = Pending
   \<and> loggedIn (session (users empty_store 7)) = True
   \<and> fst (Mercury_login_settled (JStr ''alice'') (JStr ''secret'') 3 (Fulfilled 7) (mercury0, empty_store)) = 3
   \<and> m_user (fst (snd (Mercury_login_settled (JStr ''alice'') (JStr ''secret'') 3 (Fulfilled 7) (mercury0, empty_store))))
       = Some 7
   \<and> online (users (snd (snd (Mercury_login_settled (JStr ''alice'') (JStr ''secret'') 3 (Fulfilled 7) (mercury0, empty_store)))) 7)
       = True
   \<and> loggedIn (session (users (snd (snd (Mercury_login_settled (JStr ''alice'') (JStr ''secret'') 3 (Fulfilled 7) (mercury0, empty_store)))) 7))
       = True
   \<and> m_userSessions (fst (snd (Mercury_login_settled (JStr ''alice'') (JStr ''secret'') 3 (Fulfilled 7) (mercury0, empty_store))))
       = []
   \<and> Mercury_isLoggedIn (fst (snd (Mercury_login_settled (JStr ''alice'') (JStr ''secret'') 3 (Fulfilled 7) (mercury0, empty_store))))
       = False"
proof -
  have p: "promises empty_store 3 = Pending" by (simp add: empty_store_def)
  have l: "loggedIn (session (users empty_store 7)) = True" by (simp add: empty_store_def alice_def)
  have s: "m_userSessions mercury0 = []" by (simp add: mercury0_def)
  show ?thesis
    using p l s Mercury_default_object
    by (simp add: Mercury_login_settled_fulfilled [OF p] setOnline_fields settle_pending
        Mercury_isLoggedIn_def)
qed

section \<open>Logout and the Client's media settings\<close>

lemma logout_on_array:
  assumes "user c = Some u"
  shows "logout (JArr xs) (c, st) =
     Inr (c, if userAccount (session (users st u)) \<in> set (map string_of_nat [0..<length xs])
                \<or> userAccount (session (users st u)) = ''length''
                \<or> userAccount (session (users st u)) \<in> set array_prototype
                \<or> userAccount (session (users st u)) \<in> set object_prototype
             then do_logout u st else st)"
  using assms by (simp add: logout_def js_in_def)

lemma logout_omitted:
  assumes "user c = Some u"
  shows "logout JUndefined (c, st) = Inr (c, do_logout u st)"
  using assms by (simp add: logout_def)

lemma do_logout_fields:
  "trace (do_logout u st) = trace st @ [IdpLogout (userAccount (session (users st u))) (token (session (users st u)))]"
  "loggedIn (session (users (do_logout u st) u)) = False"
  "promises (do_logout u st) = promises st"
  by (simp_all add: do_logout_def Let_def)

text \<open>
  Claim C5 at two failing inputs. \<^verbatim>\<open>logout\<close> tests \<^verbatim>\<open>userSession.userAccount in usernames\<close>,
  which asks whether the account is a property key of the array, not one of its elements.
  With the user \<^verbatim>\<open>'alice'\<close> logged in, \<^verbatim>\<open>logout(['alice'])\<close> changes nothing and calls
  nobody. With a user whose account is \<^verbatim>\<open>'0'\<close>, \<^verbatim>\<open>logout(['bob'])\<close> logs that user out.
\<close>

theorem C5_logout_tests_keys_not_names:
  "isLoggedIn (client0\<lparr>user := Some 7\<rparr>, empty_store) = True
   \<and> userAccount (session (users empty_store 7)) = ''alice''
   \<and> logout (JArr [JStr ''alice'']) (client0\<lparr>user := Some 7\<rparr>, empty_store)
       = Inr (client0\<lparr>user := Some 7\<rparr>, empty_store)
   \<and> userAccount (session (users zero_store 7)) = ''0''
   \<and> logout (JArr [JStr ''bob'']) (client0\<lparr>user := Some 7\<rparr>, zero_store)
       = Inr (client0\<lparr>user := Some 7\<rparr>, do_logout 7 zero_store)
   \<and> trace (do_logout 7 zero_store) = [IdpLogout ''0'' ''secret'']
   \<and> isLoggedIn (client0\<lparr>user := Some 7\<rparr>, do_logout 7 zero_store) = False"
proof -
  have a: "isLoggedIn (client0\<lparr>user := Some 7\<rparr>, empty_store) = True"
    "userAccount (session (users empty_store 7)) = ''alice''"
    by (simp_all add: isLoggedIn_def empty_store_def alice_def)
  have b: "logout (JArr [JStr ''alice'']) (client0\<lparr>user := Some 7\<rparr>, empty_store)
       = Inr (client0\<lparr>user := Some 7\<rparr>, empty_store)"
    by (simp add: logout_def js_in_def empty_store_def alice_def
        array_prototype_def object_prototype_def string_of_nat.simps digit_def)
  have c: "userAccount (session (users zero_store 7)) = ''0''"
    by (simp add: zero_store_def user_zero_def)
  have d: "logout (JArr [JStr ''bob'']) (client0\<lparr>user := Some 7\<rparr>, zero_store)
       = Inr (client0\<lparr>user := Some 7\<rparr>, do_logout 7 zero_store)"
    by (simp add: logout_def js_in_def zero_store_def user_zero_def string_of_nat.simps digit_def)
  have e: "trace (do_logout 7 zero_store) = [IdpLogout ''0'' ''secret'']"
    by (simp add: do_logout_fields zero_store_def user_zero_def)
  have f: "isLoggedIn (client0\<lparr>user := Some 7\<rparr>, do_logout 7 zero_store) = False"
    by (simp add: isLoggedIn_def do_logout_fields)
  from a b c d e f show ?thesis by blast
qed

text \<open>
  Claim C6. \<^verbatim>\<open>logout\<close> on a Client with no current user returns at once: the fa\<^verbatim>\<open>c\<close>ade, the
  User store and the trace are unchanged and nothing is thrown. On a Mercury object with no
  current user and no tracked session it does not throw and leaves the object and the User
  store unchanged; its only effect is the stray assignment to the global \<^verbatim>\<open>blahblah\<close>.
\<close>

theorem C6_logout_without_user_is_noop:
  "(user c = None \<longrightarrow> logout usernames (c, st) = Inr (c, st))
   \<and> (m_user m = None \<and> m_userSessions m = [] \<longrightarrow>
        Mercury_logout usernames username_global remove_defined (m, st)
          = ((m, emit (GlobalAssign ''blahblah'' (JNum 1)) st), None))"
proof -
  have a: "user c = None \<longrightarrow> logout usernames (c, st) = Inr (c, st)"
    by (simp add: logout_def)
  have b: "m_user m = None \<and> m_userSessions m = [] \<longrightarrow>
        Mercury_logout usernames username_global remove_defined (m, st)
          = ((m, emit (GlobalAssign ''blahblah'' (JNum 1)) st), None)"
    by (cases m) (simp add: Mercury_logout_def)
  from a b show ?thesis by blast
qed

text \<open>
  The hypotheses of C6 at the freshly constructed Client and Mercury objects.
\<close>

theorem C6_witness:
  "user client0 = None
   \<and> logout JUndefined (client0, empty_store) = Inr (client0, empty_store)
   \<and> m_user mercury0 = None \<and> m_userSessions mercury0 = []
   \<and> Mercury_logout JUndefined None False (mercury0, empty_store)
       = ((mercury0, emit (GlobalAssign ''blahblah'' (JNum 1)) empty_store), None)"
proof -
  have a: "user client0 = None" by (simp add: client0_def)
  have b: "m_user mercury0 = None \<and> m_userSessions mercury0 = []" by (simp add: mercury0_def)
  show ?thesis
    using a b C6_logout_without_user_is_noop
      [where c = client0 and m = mercury0 and usernames = JUndefined and st = empty_store
         and username_global = None and remove_defined = False]
    by blast
qed

lemma settings_field_single:
  "settings_field (JObj [(k, v)]) name = (if k = name then v else JUndefined)"
  by (simp add: settings_field_def js_or_def)

lemma setDefaultMediaSettings_eq:
  "setDefaultMediaSettings settings0 c =
     Inr (c\<lparr>mediaSettings :=
            \<lparr>constraints = (if truthy (settings_field settings0 ''constraints'')
                            then settings_field settings0 ''constraints''
                            else constraints (mediaSettings c)),
             servers = (if truthy (settings_field settings0 ''servers'')
                        then settings_field settings0 ''servers''
                        else servers (mediaSettings c))\<rparr>\<rparr>)"
proof -
  have t: "truthy (js_or settings0 (JObj []))" by (simp add: js_or_def)
  then obtain x where x: "get_prop (js_or settings0 (JObj [])) ''constraints'' = Inr x"
    by (cases "js_or settings0 (JObj [])") auto
  from t obtain y where y: "get_prop (js_or settings0 (JObj [])) ''servers'' = Inr y"
    by (cases "js_or settings0 (JObj [])") auto
  show ?thesis
    using x y by (simp add: setDefaultMediaSettings_def settings_field_def Let_def)
qed

text \<open>
  Claim C7. On the Client, for every prior state, \<^verbatim>\<open>setDefaultMediaSettings({constraints: X})\<close>
  returns normally and changes at most the constraints of what \<^verbatim>\<open>getMediaSettings()\<close>
  returns (to \<open>X\<close> when \<open>X\<close> is truthy), leaving the servers as they were; and
  \<^verbatim>\<open>setDefaultMediaSettings({servers: Y})\<close> changes at most the servers, leaving the
  constraints as they were. Nothing else of the fa\<^verbatim>\<open>c\<close>ade changes.
\<close>

theorem C7_setDefaultMediaSettings_frame:
  "setDefaultMediaSettings (JObj [(''constraints'', x)]) c =
     Inr (c\<lparr>mediaSettings := (getMediaSettings c)\<lparr>constraints :=
             (if truthy x then x else constraints (getMediaSettings c))\<rparr>\<rparr>)
   \<and> servers (getMediaSettings (c\<lparr>mediaSettings := (getMediaSettings c)\<lparr>constraints :=
             (if truthy x then x else constraints (getMediaSettings c))\<rparr>\<rparr>))
       = servers (getMediaSettings c)
   \<and> setDefaultMediaSettings (JObj [(''servers'', y)]) c =
     Inr (c\<lparr>mediaSettings := (getMediaSettings c)\<lparr>servers :=
             (if truthy y then y else servers (getMediaSettings c))\<rparr>\<rparr>)
   \<and> constraints (getMediaSettings (c\<lparr>mediaSettings := (getMediaSettings c)\<lparr>servers :=
             (if truthy y then y else servers (getMediaSettings c))\<rparr>\<rparr>))
       = constraints (getMediaSettings c)"
  by (simp add: setDefaultMediaSettings_eq settings_field_single getMediaSettings_def)

text \<open>
  C7 at the freshly constructed Client.
\<close>

theorem C7_witness:
  "setDefaultMediaSettings (JObj [(''constraints'', JObj [(''audio'', JBool True)])]) client0 =
     Inr (client0\<lparr>mediaSettings := \<lparr>constraints = JObj [(''audio'', JBool True)],
                                         servers = default_servers\<rparr>\<rparr>)
   \<and> setDefaultMediaSettings (JObj [(''servers'', JObj [(''iceServers'', JArr [])])]) client0 =
     Inr (client0\<lparr>mediaSettings := \<lparr>constraints = default_constraints,
                                         servers = JObj [(''iceServers'', JArr [])]\<rparr>\<rparr>)"
  using C7_setDefaultMediaSettings_frame
    [where c = client0 and x = "JObj [(''audio'', JBool True)]"
       and y = "JObj [(''iceServers'', JArr [])]"]
  by (simp add: client0_def getMediaSettings_def)

text \<open>
  Claim C8. Constructing a Client with the configuration
  \<^verbatim>\<open>{appId: 'a1', constraints: {video: true, audio: false}}\<close> returns when the default classes
  are in scope, and whenever it returns the new fa\<^verbatim>\<open>c\<close>ade's \<^verbatim>\<open>getMediaSettings()\<close> has the
  configured constraints and the built-in default ICE server list.
\<close>

theorem C8_configured_constraints_default_servers:
  "snd (Client scenario_config rnd default_namespaces w) = Inr (next_ref w)
   \<and> (snd (Client scenario_config rnd ns w) = Inr a \<longrightarrow>
        (\<exists>c. objects (fst (Client scenario_config rnd ns w)) a = Some c
           \<and> constraints (getMediaSettings c) = JObj [(''video'', JBool True), (''audio'', JBool False)]
           \<and> servers (getMediaSettings c) = default_servers))"
proof -
  have a: "snd (Client scenario_config rnd default_namespaces w) = Inr (next_ref w)"
    by (rule Client_default_returns)
  have b: "snd (Client scenario_config rnd ns w) = Inr a \<longrightarrow>
        (\<exists>c. objects (fst (Client scenario_config rnd ns w)) a = Some c
           \<and> constraints (getMediaSettings c) = JObj [(''video'', JBool True), (''audio'', JBool False)]
           \<and> servers (getMediaSettings c) = default_servers)"
  proof
    assume s: "snd (Client scenario_config rnd ns w) = Inr a"
    from Client_returns(2) [OF s] obtain c where
      c: "objects (fst (Client scenario_config rnd ns w)) a = Some c"
      and m: "mediaSettings c =
                \<lparr>constraints = js_or (case get_prop (js_or scenario_config (JObj [])) ''constraints'' of Inr x \<Rightarrow> x | Inl e \<Rightarrow> JUndefined) default_constraints,
                 servers = js_or (case get_prop (js_or scenario_config (JObj [])) ''servers'' of Inr x \<Rightarrow> x | Inl e \<Rightarrow> JUndefined) default_servers\<rparr>"
      by blast
    have "constraints (getMediaSettings c) = JObj [(''video'', JBool True), (''audio'', JBool False)]"
      using m by (simp add: getMediaSettings_def scenario_config_def js_or_def)
    moreover have "servers (getMediaSettings c) = default_servers"
      using m by (simp add: getMediaSettings_def scenario_config_def js_or_def)
    ultimately show "\<exists>c. objects (fst (Client scenario_config rnd ns w)) a = Some c
           \<and> constraints (getMediaSettings c) = JObj [(''video'', JBool True), (''audio'', JBool False)]
           \<and> servers (getMediaSettings c) = default_servers"
      using c by blast
  qed
  from a b show ?thesis by blast
qed

text \<open>
  The hypothesis of C8 in the empty registry with the default classes in scope.
\<close>

theorem C8_witness:
  "snd (Client scenario_config draw_quarter default_namespaces empty_world) = Inr 0
   \<and> (\<exists>c. objects (fst (Client scenario_config draw_quarter default_namespaces empty_world)) 0 = Some c
           \<and> constraints (getMediaSettings c) = JObj [(''video'', JBool True), (''audio'', JBool False)]
           \<and> servers (getMediaSettings c) = default_servers)"
proof -
  have n: "next_ref empty_world = 0" by (simp add: empty_world_def)
  show ?thesis
    using n C8_configured_constraints_default_servers
      [where rnd = draw_quarter and w = empty_world and ns = default_namespaces and a = 0]
    by simp
qed

section \<open>The media settings of the Mercury variant\<close>

lemma Mercury_setDefaultMediaSettings_undefined:
  assumes "that_mediaSettings m = None"
  shows "Mercury_setDefaultMediaSettings settings0 m =
     (if truthy (settings_field settings0 ''constraints'') \<or> truthy (settings_field settings0 ''servers'')
      then Inl TypeError else Inr m)"
proof -
  have t: "truthy (js_or settings0 (JObj []))" by (simp add: js_or_def)
  then obtain x where x: "get_prop (js_or settings0 (JObj [])) ''constraints'' = Inr x"
    by (cases "js_or settings0 (JObj [])") auto
  from t obtain y where y: "get_prop (js_or settings0 (JObj [])) ''servers'' = Inr y"
    by (cases "js_or settings0 (JObj [])") auto
  show ?thesis
    using x y assms
    by (simp add: Mercury_setDefaultMediaSettings_def settings_field_def Let_def
        assign_that_mediaSettings_def)
qed

lemma Mercury_setDefaultMediaSettings_local:
  assumes "Mercury_setDefaultMediaSettings settings0 m = Inr m'"
  shows "m_mediaSettings m' = m_mediaSettings m"
  using assms
  by (auto simp: Mercury_setDefaultMediaSettings_def Let_def assign_that_mediaSettings_def
      split: sum.splits if_splits option.splits)

lemma Mercury_methods_keep_that_mediaSettings:
  "that_mediaSettings (fst (Mercury_connect r (m, st))) = that_mediaSettings m"
  "that_mediaSettings (fst (Mercury_disconnect r (m, st))) = that_mediaSettings m"
  "that_mediaSettings (fst (snd (Mercury_login account tok p (m, st)))) = that_mediaSettings m"
  "that_mediaSettings (fst (Mercury_login_continuation p (m, st))) = that_mediaSettings m"
  "that_mediaSettings (fst (fst (Mercury_logout usernames ug rd (m, st)))) = that_mediaSettings m"
  by (auto simp: Mercury_connect_def Mercury_disconnect_def Mercury_login_def
      Mercury_login_continuation_def Mercury_login_fulfilled_def Mercury_login_rejected_def
      Mercury_logout_def Let_def split: promise_state.splits sum.splits prod.splits option.splits)

text \<open>
  Claim C10, as amended. In the Mercury variant the media settings live in a constructor-local
  variable that no method reads or writes, and no method assigns \<^verbatim>\<open>that.mediaSettings\<close>. So
  for a Mercury object built on an object without a \<^verbatim>\<open>mediaSettings\<close> property,
  \<^verbatim>\<open>getDefaultMediaSettings()\<close> returns \<^verbatim>\<open>undefined\<close>, and \<^verbatim>\<open>setDefaultMediaSettings\<close>
  throws a TypeError exactly when the settings carry a truthy \<^verbatim>\<open>constraints\<close> or a truthy
  \<^verbatim>\<open>servers\<close>; otherwise it returns having changed nothing.
\<close>

theorem C10_Mercury_media_accessors_disconnected:
  "(Mercury params None ns = Inr m \<longrightarrow>
      Mercury_getDefaultMediaSettings m = JUndefined
      \<and> m_mediaSettings m = \<lparr>constraints = Mercury_default_constraints, servers = default_servers\<rparr>
      \<and> Mercury_setDefaultMediaSettings settings m =
          (if truthy (settings_field settings ''constraints'') \<or> truthy (settings_field settings ''servers'')
           then Inl TypeError else Inr m)
      \<and> (truthy x \<longrightarrow> Mercury_setDefaultMediaSettings (JObj [(''constraints'', x)]) m = Inl TypeError)
      \<and> (truthy y \<longrightarrow> Mercury_setDefaultMediaSettings (JObj [(''servers'', y)]) m = Inl TypeError))
   \<and> (Mercury_setDefaultMediaSettings settings m1 = Inr m2 \<longrightarrow> m_mediaSettings m2 = m_mediaSettings m1)
   \<and> that_mediaSettings (fst (Mercury_connect r (m1, st))) = that_mediaSettings m1
   \<and> that_mediaSettings (fst (Mercury_disconnect r (m1, st))) = that_mediaSettings m1
   \<and> that_mediaSettings (fst (snd (Mercury_login account tok p (m1, st)))) = that_mediaSettings m1
   \<and> that_mediaSettings (fst (Mercury_login_continuation p (m1, st))) = that_mediaSettings m1
   \<and> that_mediaSettings (fst (fst (Mercury_logout usernames ug rd (m1, st)))) = that_mediaSettings m1"
proof -
  have a: "Mercury params None ns = Inr m \<longrightarrow>
      Mercury_getDefaultMediaSettings m = JUndefined
      \<and> m_mediaSettings m = \<lparr>constraints = Mercury_default_constraints, servers = default_servers\<rparr>
      \<and> Mercury_setDefaultMediaSettings settings m =
          (if truthy (settings_field settings ''constraints'') \<or> truthy (settings_field settings ''servers'')
           then Inl TypeError else Inr m)
      \<and> (truthy x \<longrightarrow> Mercury_setDefaultMediaSettings (JObj [(''constraints'', x)]) m = Inl TypeError)
      \<and> (truthy y \<longrightarrow> Mercury_setDefaultMediaSettings (JObj [(''servers'', y)]) m = Inl TypeError)"
  proof
    assume c: "Mercury params None ns = Inr m"
    have u: "that_mediaSettings m = None" using Mercury_returns(4) [OF c] .
    have "Mercury_getDefaultMediaSettings m = JUndefined"
      using u by (simp add: Mercury_getDefaultMediaSettings_def)
    moreover have "truthy x \<longrightarrow> Mercury_setDefaultMediaSettings (JObj [(''constraints'', x)]) m = Inl TypeError"
      by (simp add: Mercury_setDefaultMediaSettings_undefined [OF u] settings_field_single)
    moreover have "truthy y \<longrightarrow> Mercury_setDefaultMediaSettings (JObj [(''servers'', y)]) m = Inl TypeError"
      by (simp add: Mercury_setDefaultMediaSettings_undefined [OF u] settings_field_single)
    ultimately show "Mercury_getDefaultMediaSettings m = JUndefined
      \<and> m_mediaSettings m = \<lparr>constraints = Mercury_default_constraints, servers = default_servers\<rparr>
      \<and> Mercury_setDefaultMediaSettings settings m =
          (if truthy (settings_field settings ''constraints'') \<or> truthy (settings_field settings ''servers'')
           then Inl TypeError else Inr m)
      \<and> (truthy x \<longrightarrow> Mercury_setDefaultMediaSettings (JObj [(''constraints'', x)]) m = Inl TypeError)
      \<and> (truthy y \<longrightarrow> Mercury_setDefaultMediaSettings (JObj [(''servers'', y)]) m = Inl TypeError)"
      using Mercury_returns(5) [OF c] Mercury_setDefaultMediaSettings_undefined [OF u, of settings]
      by blast
  qed
  have b: "Mercury_setDefaultMediaSettings settings m1 = Inr m2 \<longrightarrow> m_mediaSettings m2 = m_mediaSettings m1"
    using Mercury_setDefaultMediaSettings_local by blast
  show ?thesis
    by (intro conjI a b Mercury_methods_keep_that_mediaSettings)
qed

text \<open>
  The hypotheses of C10 at the Mercury object constructed with the default classes in scope.
\<close>

theorem C10_witness:
  "Mercury JUndefined None default_namespaces = Inr mercury0
   \<and> Mercury_getDefaultMediaSettings mercury0 = JUndefined
   \<and> truthy (JObj [(''video'', JBool True)])
   \<and> Mercury_setDefaultMediaSettings (JObj [(''constraints'', JObj [(''video'', JBool True)])]) mercury0
       = Inl TypeError
   \<and> truthy (JObj [(''iceServers'', JArr [])])
   \<and> Mercury_setDefaultMediaSettings (JObj [(''servers'', JObj [(''iceServers'', JArr [])])]) mercury0
       = Inl TypeError
   \<and> Mercury_setDefaultMediaSettings JUndefined mercury0 = Inr mercury0"
proof -
  have c: "Mercury JUndefined None default_namespaces = Inr mercury0"
    by (rule Mercury_default_object)
  have t: "truthy (JObj [(''video'', JBool True)])" "truthy (JObj [(''iceServers'', JArr [])])"
    by simp_all
  have f: "\<not> truthy (settings_field JUndefined ''constraints'')"
    "\<not> truthy (settings_field JUndefined ''servers'')"
    by (simp_all add: settings_field_def js_or_def)
  show ?thesis
    using c t f C10_Mercury_media_accessors_disconnected
      [where params = JUndefined and ns = default_namespaces and m = mercury0
         and x = "JObj [(''video'', JBool True)]" and y = "JObj [(''iceServers'', JArr [])]"
         and settings = JUndefined and ?m1.0 = mercury0 and ?m2.0 = mercury0]
    by simp
qed

text \<open>
  Claim C10 as stated fails for a settings object whose \<^verbatim>\<open>constraints\<close> or \<^verbatim>\<open>servers\<close>
  field is falsy: the guards \<^verbatim>\<open>if (settings.constraints)\<close> and \<^verbatim>\<open>if (settings.servers)\<close> skip
  the assignment and the call returns without a fault.
\<close>

theorem C10_counterexample:
  "Mercury JUndefined None default_namespaces = Inr mercury0
   \<and> Mercury_setDefaultMediaSettings (JObj [(''constraints'', JBool False)]) mercury0 = Inr mercury0
   \<and> Mercury_setDefaultMediaSettings (JObj [(''servers'', JNull)]) mercury0 = Inr mercury0"
proof -
  have u: "that_mediaSettings mercury0 = None" by (simp add: mercury0_def)
  show ?thesis
    by (simp add: Mercury_default_object Mercury_setDefaultMediaSettings_undefined [OF u]
        settings_field_single)
qed

end
